theory Spec2Isabelle
  imports Main "HOL-Library.Sublist" "HOL-Library.AList"
begin

section \<open>JavaScript values as the commands see them\<close>

text \<open>
  The two commands of \<^verbatim>\<open>term-set-list.ts\<close> (\<^verbatim>\<open>SpoTermSetListCommand\<close> and
  \<^verbatim>\<open>SpoTermGroupAddCommand\<close>) work on whatever \<^verbatim>\<open>JSON.parse\<close> returns. A
  decoded value is a \<open>json\<close>; \<open>JUndefined\<close> is JavaScript's \<^verbatim>\<open>undefined\<close>, the
  value of a missing property or of an index past the end of an array. An object is
  the list of its properties in insertion order. Numbers are the integers (the
  protocol's numeric payload: ids, error codes, epoch milliseconds).
\<close>

datatype json =
    JUndefined
  | JNull
  | JBool bool
  | JNum int
  | JStr string
  | JArr "json list"
  | JObj "(string \<times> json) list"

text \<open>
  What a command can end with instead of returning. \<open>ServerError v\<close> is
  \<^verbatim>\<open>throw response.ErrorInfo.ErrorMessage\<close> with the thrown value \<open>v\<close>;
  \<open>TypeError\<close> and \<open>RangeError\<close> are the exceptions of the JavaScript runtime
  (a property read on \<^verbatim>\<open>null\<close> or \<^verbatim>\<open>undefined\<close>, a method call on a value
  that has no such method, \<^verbatim>\<open>toISOString\<close> on an invalid date); \<open>SyntaxError\<close>
  is \<^verbatim>\<open>JSON.parse\<close> on malformed text; \<open>Rejected s\<close> is a rejected promise of
  one of the external collaborators (transport, digest provider). \<open>Unmodelled\<close>
  marks the few inputs on which JavaScript would run a coercion that this
  development does not describe; no theorem below speaks about such an input
  other than to say that nothing is logged.
\<close>

datatype error =
    ServerError json
  | TypeError
  | RangeError
  | SyntaxError
  | Rejected string
  | Unmodelled

text \<open>\<^verbatim>\<open>v.k\<close> for one of the field names the commands read.\<close>

fun getProp :: "json \<Rightarrow> string \<Rightarrow> error + json" where
  "getProp JUndefined k = Inl TypeError"
| "getProp JNull k = Inl TypeError"
| "getProp (JObj kvs) k = Inr (case map_of kvs k of None \<Rightarrow> JUndefined | Some v \<Rightarrow> v)"
| "getProp v k = Inr JUndefined"

text \<open>\<^verbatim>\<open>if (v)\<close>: JavaScript truthiness.\<close>

fun truthy :: "json \<Rightarrow> bool" where
  "truthy JUndefined = False"
| "truthy JNull = False"
| "truthy (JBool b) = b"
| "truthy (JNum n) = (n \<noteq> 0)"
| "truthy (JStr s) = (s \<noteq> [])"
| "truthy (JArr xs) = True"
| "truthy (JObj kvs) = True"

section \<open>The action-batch decoder\<close>

text \<open>
  Both commands decode a response the same way
  (\<^verbatim>\<open>commandAction\<close>, lines 112-118 and 242-248):
  \<^verbatim>\<open>
  const json: ClientSvcResponse = JSON.parse(processQuery);
  const response: ClientSvcResponseContents = json[0];
  if (response.ErrorInfo) {
    throw response.ErrorInfo.ErrorMessage;
  }
  const result = json[json.length - 1];
  \<close>
  \<open>ClientSvcResponse\<close> is an array type; the array is a \<open>json list\<close>.
\<close>

definition element0 :: "json list \<Rightarrow> json" where
  "element0 js = (case js of [] \<Rightarrow> JUndefined | x # _ \<Rightarrow> x)"

definition lastElement :: "json list \<Rightarrow> json" where
  "lastElement js = (if js = [] then JUndefined else js ! (length js - 1))"

definition checkErrorInfo :: "json list \<Rightarrow> error + unit" where
  "checkErrorInfo js =
     (case getProp (element0 js) ''ErrorInfo'' of
        Inl e \<Rightarrow> Inl e
      | Inr errorInfo \<Rightarrow>
          if truthy errorInfo then
            (case getProp errorInfo ''ErrorMessage'' of
               Inl e \<Rightarrow> Inl e
             | Inr msg \<Rightarrow> Inl (ServerError msg))
          else Inr ())"

definition decodeResult :: "json list \<Rightarrow> error + json" where
  "decodeResult js =
     (case checkErrorInfo js of
        Inl e \<Rightarrow> Inl e
      | Inr _ \<Rightarrow> Inr (lastElement js))"

section \<open>Strings, numbers and dates of the JavaScript runtime\<close>

text \<open>
  \<^verbatim>\<open>s.replace(pat, rep)\<close> with a string pattern replaces the first occurrence of
  \<open>pat\<close> only. The commands call it with the replacement \<^verbatim>\<open>''\<close>, which has
  none of the \<^verbatim>\<open>$\<close> patterns.
\<close>

fun replace :: "string \<Rightarrow> string \<Rightarrow> string \<Rightarrow> string" where
  "replace pat rep [] = (if pat = [] then rep else [])"
| "replace pat rep (c # cs) =
     (if prefix pat (c # cs) then rep @ drop (length pat) (c # cs)
      else c # replace pat rep cs)"

text \<open>
  A time value is an integral number of milliseconds since the epoch, or \<open>NaN\<close>
  (the time value of an invalid \<^verbatim>\<open>Date\<close>).
\<close>

datatype number = NaN | Finite int

definition isDigit :: "char \<Rightarrow> bool" where
  "isDigit c = (c \<in> set ''0123456789'')"

definition digitValue :: "char \<Rightarrow> int" where
  "digitValue c = of_char c - 48"

definition intOfDigits :: "string \<Rightarrow> int" where
  "intOfDigits ds = foldl (\<lambda>n c. 10 * n + digitValue c) 0 ds"

definition isDecimal :: "string \<Rightarrow> bool" where
  "isDecimal ds = (ds \<noteq> [] \<and> list_all isDigit ds)"

text \<open>
  \<^verbatim>\<open>Number(s)\<close> on the texts \<^verbatim>\<open>[+-]?[0-9]+\<close> and on the empty text (which is 0).
  Every other text (fractions, exponents, hexadecimal, white space, \<^verbatim>\<open>Infinity\<close>,
  or no number at all) is left to \<open>Unmodelled\<close>.
\<close>

definition Number :: "string \<Rightarrow> error + int" where
  "Number s =
     (case s of
        [] \<Rightarrow> Inr 0
      | c # ds \<Rightarrow>
          if c = CHR ''-'' \<and> isDecimal ds then Inr (- intOfDigits ds)
          else if c = CHR ''+'' \<and> isDecimal ds then Inr (intOfDigits ds)
          else if isDecimal s then Inr (intOfDigits s)
          else Inl Unmodelled)"

text \<open>
  \<^verbatim>\<open>new Date(x)\<close> for a number \<open>x\<close> keeps \<open>TimeClip x\<close>: the time value is
  \<open>NaN\<close> beyond 8.64e15 milliseconds either side of the epoch. (A decimal integer
  of at most that magnitude is its own double; a larger one rounds to a double that
  is larger than 8.64e15 as well.)
\<close>

definition maxTime :: int where
  "maxTime = 8640000000000000"

definition TimeClip :: "int \<Rightarrow> number" where
  "TimeClip t = (if \<bar>t\<bar> \<le> maxTime then Finite t else NaN)"

subsection \<open>Calendar arithmetic of ECMA-262 (Date objects)\<close>

definition msPerDay :: int where
  "msPerDay = 86400000"

definition Day :: "int \<Rightarrow> int" where
  "Day t = t div msPerDay"

definition TimeWithinDay :: "int \<Rightarrow> int" where
  "TimeWithinDay t = t mod msPerDay"

definition DayFromYear :: "int \<Rightarrow> int" where
  "DayFromYear y =
     365 * (y - 1970) + (y - 1969) div 4 - (y - 1901) div 100 + (y - 1601) div 400"

definition isLeapYear :: "int \<Rightarrow> bool" where
  "isLeapYear y = (y mod 4 = 0 \<and> (y mod 100 \<noteq> 0 \<or> y mod 400 = 0))"

text \<open>
  \<open>YearFromTime t\<close> is the year \<open>y\<close> with
  \<open>DayFromYear y \<le> Day t < DayFromYear (y + 1)\<close> (lemma \<open>YearFromTime_bounds\<close>
  below): the estimate from the mean length of a year is off by at most one.
\<close>

definition YearFromTime :: "int \<Rightarrow> int" where
  "YearFromTime t =
     (let d = Day t; y = 1970 + (400 * d) div 146097
      in if DayFromYear (y + 1) \<le> d then y + 1
         else if DayFromYear y \<le> d then y
         else y - 1)"

definition InLeapYear :: "int \<Rightarrow> int" where
  "InLeapYear t = (if isLeapYear (YearFromTime t) then 1 else 0)"

definition DayWithinYear :: "int \<Rightarrow> int" where
  "DayWithinYear t = Day t - DayFromYear (YearFromTime t)"

text \<open>The day of the year on which month \<open>m\<close> (0 to 11) starts; \<open>l\<close> is 1 in a leap year.\<close>

definition monthStart :: "int \<Rightarrow> int \<Rightarrow> int" where
  "monthStart l m =
     (if m = 0 then 0 else if m = 1 then 31 else if m = 2 then 59 + l
      else if m = 3 then 90 + l else if m = 4 then 120 + l else if m = 5 then 151 + l
      else if m = 6 then 181 + l else if m = 7 then 212 + l else if m = 8 then 243 + l
      else if m = 9 then 273 + l else if m = 10 then 304 + l else 334 + l)"

definition MonthFromTime :: "int \<Rightarrow> int" where
  "MonthFromTime t =
     (let d = DayWithinYear t; l = InLeapYear t
      in if d < 31 then 0 else if d < 59 + l then 1 else if d < 90 + l then 2
         else if d < 120 + l then 3 else if d < 151 + l then 4 else if d < 181 + l then 5
         else if d < 212 + l then 6 else if d < 243 + l then 7 else if d < 273 + l then 8
         else if d < 304 + l then 9 else if d < 334 + l then 10 else 11)"

definition DateFromTime :: "int \<Rightarrow> int" where
  "DateFromTime t = DayWithinYear t - monthStart (InLeapYear t) (MonthFromTime t) + 1"

definition HourFromTime :: "int \<Rightarrow> int" where
  "HourFromTime t = (t div 3600000) mod 24"

definition MinFromTime :: "int \<Rightarrow> int" where
  "MinFromTime t = (t div 60000) mod 60"

definition SecFromTime :: "int \<Rightarrow> int" where
  "SecFromTime t = (t div 1000) mod 60"

definition msFromTime :: "int \<Rightarrow> int" where
  "msFromTime t = t mod 1000"

subsection \<open>\<^verbatim>\<open>Date.prototype.toISOString\<close>\<close>

definition digitChar :: "int \<Rightarrow> char" where
  "digitChar n = char_of (48 + n mod 10)"

text \<open>
  The \<open>k\<close> low decimal digits of \<open>n\<close>: a field \<open>0 \<le> n < 10 ^ k\<close> padded with zeros to
  the width \<open>k\<close> (every field of \<open>isoString\<close> is in that range, lemma \<open>iso_fields\<close>).
\<close>

fun padDigits :: "nat \<Rightarrow> int \<Rightarrow> string" where
  "padDigits 0 n = []"
| "padDigits (Suc k) n = padDigits k (n div 10) @ [digitChar n]"

definition isoYear :: "int \<Rightarrow> string" where
  "isoYear y =
     (if 0 \<le> y \<and> y \<le> 9999 then padDigits 4 y
      else (if y < 0 then ''-'' else ''+'') @ padDigits 6 \<bar>y\<bar>)"

definition isoString :: "int \<Rightarrow> string" where
  "isoString t =
     isoYear (YearFromTime t) @ ''-'' @ padDigits 2 (MonthFromTime t + 1) @ ''-''
       @ padDigits 2 (DateFromTime t) @ ''T'' @ padDigits 2 (HourFromTime t)
       @ '':'' @ padDigits 2 (MinFromTime t) @ '':'' @ padDigits 2 (SecFromTime t)
       @ ''.'' @ padDigits 3 (msFromTime t) @ ''Z''"

definition toISOString :: "number \<Rightarrow> error + string" where
  "toISOString d = (case d of NaN \<Rightarrow> Inl RangeError | Finite t \<Rightarrow> Inr (isoString t))"

text \<open>
  Line 121: \<^verbatim>\<open>new Date(Number(s.replace('/Date(', '').replace(')/', ''))).toISOString()\<close>,
  and line 122: \<^verbatim>\<open>s.replace('/Guid(', '').replace(')/', '')\<close>.
\<close>

definition unwrapDate :: "string \<Rightarrow> error + string" where
  "unwrapDate s =
     (case Number (replace '')/'' [] (replace ''/Date('' [] s)) of
        Inl e \<Rightarrow> Inl e
      | Inr n \<Rightarrow> toISOString (TimeClip n))"

definition unwrapGuid :: "string \<Rightarrow> string" where
  "unwrapGuid s = replace '')/'' [] (replace ''/Guid('' [] s)"

section \<open>Collaborators and effects\<close>

text \<open>
  A request as \<^verbatim>\<open>request.post\<close> receives it: the URL, the \<^verbatim>\<open>X-RequestDigest\<close>
  header and the body.
\<close>

record request =
  url :: string
  digest :: string
  data :: string

text \<open>
  What is outside the two commands: \<^verbatim>\<open>config.applicationName\<close>; the helper
  \<^verbatim>\<open>formatting.escapeXml\<close> (\<open>escapeXml env x\<close> is the text that
  \<^verbatim>\<open>${formatting.escapeXml(x)}\<close> puts into a template literal); \<^verbatim>\<open>uuid.v4()\<close>;
  \<^verbatim>\<open>spo.getSpoAdminUrl\<close>; the \<^verbatim>\<open>FormDigestValue\<close> of \<^verbatim>\<open>spo.getRequestDigest(url)\<close>;
  \<^verbatim>\<open>request.post\<close>, whose answer may depend on the requests posted before; and
  \<^verbatim>\<open>JSON.parse\<close>. Each of the asynchronous ones may reject.
\<close>

record env =
  applicationName :: string
  escapeXml :: "string option \<Rightarrow> string"
  v4 :: string
  getSpoAdminUrl :: "error + string"
  getRequestDigest :: "string \<Rightarrow> error + string"
  post :: "request list \<Rightarrow> request \<Rightarrow> error + string"
  JSON_parse :: "string \<Rightarrow> error + json"

text \<open>What a command does to the outside, in order.\<close>

datatype event =
    GetSpoAdminUrl
  | GetRequestDigest string
  | Post request
  | LogToStderr string
  | Log json

fun posts :: "event list \<Rightarrow> request list" where
  "posts [] = []"
| "posts (Post r # evs) = r # posts evs"
| "posts (ev # evs) = posts evs"

fun logged :: "event list \<Rightarrow> json list" where
  "logged [] = []"
| "logged (Log v # evs) = v # logged evs"
| "logged (ev # evs) = logged evs"

text \<open>
  A step of a command takes the events so far and either throws or returns, with
  the events extended. \<open>andThen\<close> is the sequencing of \<^verbatim>\<open>await\<close> inside one
  \<^verbatim>\<open>try\<close> block: the first throw ends the block.
\<close>

type_synonym 'a action = "event list \<Rightarrow> (error + 'a) \<times> event list"

definition done_with :: "'a \<Rightarrow> 'a action" where
  "done_with x evs = (Inr x, evs)"

definition lift :: "error + 'a \<Rightarrow> 'a action" where
  "lift r evs = (r, evs)"

definition emit :: "event \<Rightarrow> unit action" where
  "emit ev evs = (Inr (), evs @ [ev])"

definition andThen :: "'a action \<Rightarrow> ('a \<Rightarrow> 'b action) \<Rightarrow> 'b action" where
  "andThen m f evs = (case m evs of (Inl e, evs') \<Rightarrow> (Inl e, evs') | (Inr x, evs') \<Rightarrow> f x evs')"

definition whenVerbose :: "bool \<Rightarrow> string \<Rightarrow> unit action" where
  "whenVerbose verbose msg = (if verbose then emit (LogToStderr msg) else done_with ())"

definition callGetSpoAdminUrl :: "env \<Rightarrow> string action" where
  "callGetSpoAdminUrl env evs = (getSpoAdminUrl env, evs @ [GetSpoAdminUrl])"

definition callGetRequestDigest :: "env \<Rightarrow> string \<Rightarrow> string action" where
  "callGetRequestDigest env u evs = (getRequestDigest env u, evs @ [GetRequestDigest u])"

definition callPost :: "env \<Rightarrow> request \<Rightarrow> string action" where
  "callPost env r evs = (post env (posts evs) r, evs @ [Post r])"

text \<open>An optional string option is truthy when it is given and not empty.\<close>

fun truthyOption :: "string option \<Rightarrow> bool" where
  "truthyOption None = False"
| "truthyOption (Some s) = (s \<noteq> [])"

text \<open>
  \<^verbatim>\<open>args.options.webUrl ? args.options.webUrl : await spo.getSpoAdminUrl(logger, this.debug)\<close>
  (line 95; line 225 writes it with \<^verbatim>\<open>||\<close>).
\<close>

definition resolveWebUrl :: "env \<Rightarrow> string option \<Rightarrow> string action" where
  "resolveWebUrl env webUrl =
     (case webUrl of
        Some u \<Rightarrow> if u \<noteq> [] then done_with u else callGetSpoAdminUrl env
      | None \<Rightarrow> callGetSpoAdminUrl env)"

text \<open>
  Lines 95-96 and 225-227: the site to talk to and the \<^verbatim>\<open>FormDigestValue\<close> of its
  request digest.
\<close>

definition connect :: "env \<Rightarrow> string option \<Rightarrow> (string \<times> string) action" where
  "connect env webUrl =
     andThen (resolveWebUrl env webUrl) (\<lambda>spoWebUrl.
     andThen (callGetRequestDigest env spoWebUrl) (\<lambda>formDigest.
     done_with (spoWebUrl, formDigest)))"

text \<open>
  \<^verbatim>\<open>JSON.parse(text)\<close> at the type \<open>ClientSvcResponse\<close>, an array. A text that
  parses to something else is outside this development.
\<close>

definition parseResponse :: "env \<Rightarrow> string \<Rightarrow> error + json list" where
  "parseResponse env text =
     (case JSON_parse env text of
        Inl e \<Rightarrow> Inl e
      | Inr (JArr js) \<Rightarrow> Inr js
      | Inr _ \<Rightarrow> Inl Unmodelled)"

text \<open>The two kinds of parameter the request bodies embed.\<close>

definition guidParameter :: "string \<Rightarrow> string" where
  \<open>guidParameter g = ''<Parameter Type="Guid">{'' @ g @ ''}</Parameter>''\<close>

definition stringParameter :: "string \<Rightarrow> string" where
  \<open>stringParameter s = ''<Parameter Type="String">'' @ s @ ''</Parameter>''\<close>

definition requestHeader :: "env \<Rightarrow> string" where
  \<open>requestHeader env =
     ''<Request AddExpandoFieldTypeSuffix="true" SchemaVersion="15.0.0.0" LibraryVersion="16.0.0.0" ApplicationName="''
       @ applicationName env
       @ ''" xmlns="http://schemas.microsoft.com/sharepoint/clientquery/2009">''\<close>

definition processQueryUrl :: "string \<Rightarrow> string" where
  "processQueryUrl webUrl = webUrl @ ''/_vti_bin/client.svc/ProcessQuery''"

section \<open>\<^verbatim>\<open>spo term set list\<close>\<close>

record TermSetListOptions =
  list_verbose :: bool
  list_webUrl :: "string option"
  list_termGroupId :: "string option"
  list_termGroupName :: "string option"

text \<open>An optional string inside a template literal: \<^verbatim>\<open>undefined\<close> prints as its name.\<close>

fun optionText :: "string option \<Rightarrow> string" where
  "optionText None = ''undefined''"
| "optionText (Some s) = s"

text \<open>Line 101: the \<^verbatim>\<open>query\<close> fragment, by id when \<^verbatim>\<open>termGroupId\<close> is truthy, else by name.\<close>

definition getById_open :: string where
  \<open>getById_open =
     ''<Method Id="62" ParentId="60" Name="GetById"><Parameters>''\<close>

definition getByName_open :: string where
  \<open>getByName_open =
     ''<Method Id="62" ParentId="60" Name="GetByName"><Parameters>''\<close>

definition parameters_close :: string where
  \<open>parameters_close =
     ''</Parameters></Method>''\<close>

definition termSetList_query :: "env \<Rightarrow> TermSetListOptions \<Rightarrow> string" where
  "termSetList_query env opts =
     (if truthyOption (list_termGroupId opts)
      then getById_open @ guidParameter (optionText (list_termGroupId opts)) @ parameters_close
      else getByName_open @ stringParameter (escapeXml env (list_termGroupName opts))
             @ parameters_close)"

text \<open>Lines 103-109: \<^verbatim>\<open>requestOptions\<close>.\<close>

definition termSetList_head :: string where
  \<open>termSetList_head =
     ''<Actions><ObjectPath Id="55" ObjectPathId="54" />''
       @ ''<ObjectIdentityQuery Id="56" ObjectPathId="54" />''
       @ ''<ObjectPath Id="58" ObjectPathId="57" />''
       @ ''<ObjectIdentityQuery Id="59" ObjectPathId="57" />''
       @ ''<ObjectPath Id="61" ObjectPathId="60" /><ObjectPath Id="63" ObjectPathId="62" />''
       @ ''<ObjectIdentityQuery Id="64" ObjectPathId="62" />''
       @ ''<ObjectPath Id="66" ObjectPathId="65" /><Query Id="67" ObjectPathId="65">''
       @ ''<Query SelectAllProperties="false"><Properties /></Query>''
       @ ''<ChildItemQuery SelectAllProperties="true"><Properties>''
       @ ''<Property Name="Name" ScalarProperty="true" />''
       @ ''<Property Name="Id" ScalarProperty="true" /></Properties></ChildItemQuery></Query>''
       @ ''</Actions><ObjectPaths>''
       @ ''<StaticMethod Id="54" Name="GetTaxonomySession" TypeId="{981cbc68-9edc-4f8d-872f-71146fcbb84f}" />''
       @ ''<Method Id="57" ParentId="54" Name="GetDefaultSiteCollectionTermStore" />''
       @ ''<Property Id="60" ParentId="57" Name="Groups" />''\<close>

definition termSetList_tail :: string where
  \<open>termSetList_tail =
     ''<Property Id="65" ParentId="62" Name="TermSets" /></ObjectPaths></Request>''\<close>

definition termSetList_data :: "env \<Rightarrow> TermSetListOptions \<Rightarrow> string" where
  "termSetList_data env opts =
     requestHeader env @ termSetList_head @ termSetList_query env opts @ termSetList_tail"

definition termSetList_request :: "env \<Rightarrow> TermSetListOptions \<Rightarrow> string \<Rightarrow> string \<Rightarrow> request" where
  "termSetList_request env opts spoWebUrl formDigest =
     \<lparr>url = processQueryUrl spoWebUrl, digest = formDigest, data = termSetList_data env opts\<rparr>"

text \<open>
  \<^verbatim>\<open>v.k.replace(...)\<close> needs \<open>v.k\<close> to be a string; \<^verbatim>\<open>v.k = x\<close> on an object keeps
  the place of an existing property and appends a new one.
\<close>

definition stringProp :: "json \<Rightarrow> string \<Rightarrow> error + string" where
  "stringProp v k =
     (case getProp v k of
        Inl e \<Rightarrow> Inl e
      | Inr (JStr s) \<Rightarrow> Inr s
      | Inr _ \<Rightarrow> Inl TypeError)"

fun setProp :: "string \<Rightarrow> json \<Rightarrow> json \<Rightarrow> json" where
  "setProp k x (JObj kvs) = JObj (AList.update k x kvs)"
| "setProp k x v = v"

text \<open>Lines 120-125: the function mapped over \<^verbatim>\<open>result._Child_Items_\<close>.\<close>

definition normalizeTermSet :: "json \<Rightarrow> error + json" where
  "normalizeTermSet t =
     (case stringProp t ''CreatedDate'' of
        Inl e \<Rightarrow> Inl e
      | Inr created \<Rightarrow>
     (case unwrapDate created of
        Inl e \<Rightarrow> Inl e
      | Inr createdIso \<Rightarrow>
     (let t1 = setProp ''CreatedDate'' (JStr createdIso) t in
     (case stringProp t1 ''Id'' of
        Inl e \<Rightarrow> Inl e
      | Inr i \<Rightarrow>
     (let t2 = setProp ''Id'' (JStr (unwrapGuid i)) t1 in
     (case stringProp t2 ''LastModifiedDate'' of
        Inl e \<Rightarrow> Inl e
      | Inr modified \<Rightarrow>
     (case unwrapDate modified of
        Inl e \<Rightarrow> Inl e
      | Inr modifiedIso \<Rightarrow> Inr (setProp ''LastModifiedDate'' (JStr modifiedIso) t2))))))))"

fun mapResult :: "('a \<Rightarrow> error + 'b) \<Rightarrow> 'a list \<Rightarrow> error + 'b list" where
  "mapResult f [] = Inr []"
| "mapResult f (x # xs) =
     (case f x of
        Inl e \<Rightarrow> Inl e
      | Inr y \<Rightarrow> (case mapResult f xs of Inl e \<Rightarrow> Inl e | Inr ys \<Rightarrow> Inr (y # ys)))"

text \<open>
  Line 119, \<^verbatim>\<open>result._Child_Items_.length > 0\<close> for a truthy \<^verbatim>\<open>_Child_Items_\<close>: a
  number or \<^verbatim>\<open>true\<close> has no length and \<^verbatim>\<open>undefined > 0\<close> is false; an object
  with a property \<^verbatim>\<open>length\<close> of its own is outside this development.
\<close>

fun lengthPositive :: "json \<Rightarrow> error + bool" where
  "lengthPositive (JArr xs) = Inr (xs \<noteq> [])"
| "lengthPositive (JStr s) = Inr (s \<noteq> [])"
| "lengthPositive (JObj kvs) =
     (case map_of kvs ''length'' of None \<Rightarrow> Inr False | Some _ \<Rightarrow> Inl Unmodelled)"
| "lengthPositive (JBool b) = Inr False"
| "lengthPositive (JNum n) = Inr False"
| "lengthPositive JNull = Inl TypeError"
| "lengthPositive JUndefined = Inl TypeError"

text \<open>Line 120: only an array has \<^verbatim>\<open>map\<close>.\<close>

fun mapChildItems :: "json \<Rightarrow> error + json list" where
  "mapChildItems (JArr ts) = mapResult normalizeTermSet ts"
| "mapChildItems v = Inl TypeError"

text \<open>Lines 118-128: from the decoded \<^verbatim>\<open>result\<close> to the output.\<close>

definition termSetList_output :: "json \<Rightarrow> unit action" where
  "termSetList_output result =
     andThen (lift (getProp result ''_Child_Items_'')) (\<lambda>items.
       if truthy items then
         andThen (lift (lengthPositive items)) (\<lambda>nonEmpty.
           if nonEmpty then
             andThen (lift (mapChildItems items)) (\<lambda>ts. emit (Log (JArr ts)))
           else done_with ())
       else done_with ())"

text \<open>Lines 112-128: from the response text to the output.\<close>

definition termSetList_response :: "env \<Rightarrow> string \<Rightarrow> unit action" where
  "termSetList_response env processQuery =
     andThen (lift (parseResponse env processQuery)) (\<lambda>json.
     andThen (lift (decodeResult json)) (\<lambda>result.
     termSetList_output result))"

text \<open>
  Lines 93-133, the \<^verbatim>\<open>try\<close> block of \<^verbatim>\<open>commandAction\<close>. What it throws goes to
  \<^verbatim>\<open>handleRejectedODataJsonPromise\<close> of the base class, which is not part of
  these sources; the result here is the thrown value itself.
\<close>

definition termSetList_commandAction :: "env \<Rightarrow> TermSetListOptions \<Rightarrow> (error + unit) \<times> event list" where
  "termSetList_commandAction env opts =
     andThen (connect env (list_webUrl opts)) (\<lambda>(spoWebUrl, formDigest).
     andThen (whenVerbose (list_verbose opts) ''Retrieving taxonomy term sets...'') (\<lambda>_.
     andThen (callPost env (termSetList_request env opts spoWebUrl formDigest)) (\<lambda>processQuery.
     termSetList_response env processQuery))) []"

section \<open>\<^verbatim>\<open>spo term group add\<close>\<close>

record TermGroupAddOptions =
  add_verbose :: bool
  add_description :: "string option"
  add_id :: "string option"
  add_name :: string
  add_webUrl :: "string option"

text \<open>
  A decoded value inside a template literal (\<^verbatim>\<open>${termStore._ObjectIdentity_}\<close>). The
  protocol sends a string; the texts of numbers and arrays are outside this
  development.
\<close>

fun templateText :: "json \<Rightarrow> error + string" where
  "templateText (JStr s) = Inr s"
| "templateText JUndefined = Inr ''undefined''"
| "templateText JNull = Inr ''null''"
| "templateText (JBool b) = Inr (if b then ''true'' else ''false'')"
| "templateText (JObj kvs) = Inr ''[object Object]''"
| "templateText (JNum n) = Inl Unmodelled"
| "templateText (JArr xs) = Inl Unmodelled"

definition objectIdentity :: "json \<Rightarrow> error + string" where
  "objectIdentity v =
     (case getProp v ''_ObjectIdentity_'' of Inl e \<Rightarrow> Inl e | Inr i \<Rightarrow> templateText i)"

text \<open>Lines 233-239: the first batch asks for the default term store.\<close>

definition termStore_body :: string where
  \<open>termStore_body =
     ''<Actions><ObjectPath Id="4" ObjectPathId="3" />''
       @ ''<ObjectIdentityQuery Id="5" ObjectPathId="3" /><ObjectPath Id="7" ObjectPathId="6" />''
       @ ''<ObjectIdentityQuery Id="8" ObjectPathId="6" /><Query Id="9" ObjectPathId="6">''
       @ ''<Query SelectAllProperties="true"><Properties /></Query></Query></Actions><ObjectPaths>''
       @ ''<StaticMethod Id="3" Name="GetTaxonomySession" TypeId="{981cbc68-9edc-4f8d-872f-71146fcbb84f}" />''
       @ ''<Method Id="6" ParentId="3" Name="GetDefaultSiteCollectionTermStore" /></ObjectPaths>''
       @ ''</Request>''\<close>

definition termStore_data :: "env \<Rightarrow> string" where
  "termStore_data env = requestHeader env @ termStore_body"

definition termStore_request :: "env \<Rightarrow> string \<Rightarrow> string \<Rightarrow> request" where
  "termStore_request env webUrl formDigest =
     \<lparr>url = processQueryUrl webUrl, digest = formDigest, data = termStore_data env\<rparr>"

text \<open>Lines 229-248: the first round trip and its decoding.\<close>

definition getTermStore :: "env \<Rightarrow> TermGroupAddOptions \<Rightarrow> string \<Rightarrow> string \<Rightarrow> json action" where
  "getTermStore env opts webUrl formDigest =
     andThen (whenVerbose (add_verbose opts) ''Getting taxonomy term store...'') (\<lambda>_.
     andThen (callPost env (termStore_request env webUrl formDigest)) (\<lambda>processQuery.
     andThen (lift (parseResponse env processQuery)) (\<lambda>json.
     lift (decodeResult json))))"

text \<open>
  Lines 249-261: the second batch calls \<^verbatim>\<open>CreateGroup\<close> with the name and
  \<^verbatim>\<open>args.options.id || v4()\<close> on the term store's identity.
\<close>

definition termGroupId :: "env \<Rightarrow> TermGroupAddOptions \<Rightarrow> string" where
  "termGroupId env opts =
     (case add_id opts of Some i \<Rightarrow> if i \<noteq> [] then i else v4 env | None \<Rightarrow> v4 env)"

definition createGroup_head :: string where
  \<open>createGroup_head =
     ''<Actions><ObjectPath Id="14" ObjectPathId="13" />''
       @ ''<ObjectIdentityQuery Id="15" ObjectPathId="13" /><Query Id="16" ObjectPathId="13">''
       @ ''<Query SelectAllProperties="false"><Properties>''
       @ ''<Property Name="Name" ScalarProperty="true" />''
       @ ''<Property Name="Id" ScalarProperty="true" />''
       @ ''<Property Name="Description" ScalarProperty="true" /></Properties></Query></Query>''
       @ ''</Actions><ObjectPaths><Method Id="13" ParentId="6" Name="CreateGroup"><Parameters>''\<close>

definition createGroup_middle :: string where
  \<open>createGroup_middle =
     ''</Parameters></Method><Identity Id="6" Name="''\<close>

definition identity_close :: string where
  \<open>identity_close =
     ''" /></ObjectPaths></Request>''\<close>

definition createGroup_data :: "env \<Rightarrow> TermGroupAddOptions \<Rightarrow> string \<Rightarrow> string" where
  "createGroup_data env opts identity =
     requestHeader env @ createGroup_head
       @ stringParameter (escapeXml env (Some (add_name opts)))
       @ guidParameter (termGroupId env opts)
       @ createGroup_middle @ identity @ identity_close"

definition createGroup_request ::
    "env \<Rightarrow> TermGroupAddOptions \<Rightarrow> string \<Rightarrow> string \<Rightarrow> json \<Rightarrow> error + request" where
  "createGroup_request env opts webUrl formDigest termStore =
     (case objectIdentity termStore of
        Inl e \<Rightarrow> Inl e
      | Inr identity \<Rightarrow>
          Inr \<lparr>url = processQueryUrl webUrl, digest = formDigest,
               data = createGroup_data env opts identity\<rparr>)"

text \<open>Lines 249-270: the second round trip and its decoding.\<close>

definition createGroup ::
    "env \<Rightarrow> TermGroupAddOptions \<Rightarrow> string \<Rightarrow> string \<Rightarrow> json \<Rightarrow> json action" where
  "createGroup env opts webUrl formDigest termStore =
     andThen (whenVerbose (add_verbose opts) ''Adding taxonomy term group...'') (\<lambda>_.
     andThen (lift (createGroup_request env opts webUrl formDigest termStore)) (\<lambda>requestOptions.
     andThen (callPost env requestOptions) (\<lambda>terms.
     andThen (lift (parseResponse env terms)) (\<lambda>json2.
     lift (decodeResult json2)))))"

text \<open>Lines 278-284: the third batch sets \<^verbatim>\<open>Description\<close> on the new group's identity.\<close>

definition setDescription_head :: string where
  \<open>setDescription_head =
     ''<Actions><SetProperty Id="51" ObjectPathId="45" Name="Description">''\<close>

definition setDescription_middle :: string where
  \<open>setDescription_middle =
     ''</SetProperty></Actions><ObjectPaths><Identity Id="45" Name="''\<close>

definition setDescription_data :: "env \<Rightarrow> TermGroupAddOptions \<Rightarrow> string \<Rightarrow> string" where
  "setDescription_data env opts identity =
     requestHeader env @ setDescription_head
       @ stringParameter (escapeXml env (add_description opts))
       @ setDescription_middle @ identity @ identity_close"

definition setDescription_request ::
    "env \<Rightarrow> TermGroupAddOptions \<Rightarrow> string \<Rightarrow> string \<Rightarrow> json \<Rightarrow> error + request" where
  "setDescription_request env opts webUrl formDigest termGroup =
     (case objectIdentity termGroup of
        Inl e \<Rightarrow> Inl e
      | Inr identity \<Rightarrow>
          Inr \<lparr>url = processQueryUrl webUrl, digest = formDigest,
               data = setDescription_data env opts identity\<rparr>)"

text \<open>
  Lines 272-287: \<^verbatim>\<open>termGroups\<close> stays \<^verbatim>\<open>undefined\<close> (\<open>None\<close>) unless
  \<^verbatim>\<open>args.options.description\<close> is truthy.
\<close>

definition setDescription ::
    "env \<Rightarrow> TermGroupAddOptions \<Rightarrow> string \<Rightarrow> string \<Rightarrow> json \<Rightarrow> string option action" where
  "setDescription env opts webUrl formDigest termGroup =
     (if truthyOption (add_description opts) then
        andThen (whenVerbose (add_verbose opts) ''Setting taxonomy term group description...'') (\<lambda>_.
        andThen (lift (setDescription_request env opts webUrl formDigest termGroup)) (\<lambda>requestOptionsQuery.
        andThen (callPost env requestOptionsQuery) (\<lambda>termGroups.
        done_with (Some termGroups))))
      else done_with None)"

text \<open>Lines 289-295: the answer of the third batch is looked at when it is truthy.\<close>

definition checkTermGroups :: "env \<Rightarrow> string option \<Rightarrow> error + unit" where
  "checkTermGroups env termGroups =
     (if truthyOption termGroups then
        (case parseResponse env (optionText termGroups) of
           Inl e \<Rightarrow> Inl e
         | Inr json \<Rightarrow> checkErrorInfo json)
      else Inr ())"

text \<open>
  Lines 297-300. \<^verbatim>\<open>delete\<close> removes a property of an object; reading
  \<^verbatim>\<open>termGroup.Id\<close> throws on \<^verbatim>\<open>null\<close>, and \<^verbatim>\<open>.replace\<close> on anything but a string.
\<close>

fun deleteProp :: "string \<Rightarrow> json \<Rightarrow> error + json" where
  "deleteProp k (JObj kvs) = Inr (JObj (filter (\<lambda>kv. fst kv \<noteq> k) kvs))"
| "deleteProp k JNull = Inl TypeError"
| "deleteProp k JUndefined = Inl TypeError"
| "deleteProp k v = Inr v"

definition normalizeTermGroup :: "TermGroupAddOptions \<Rightarrow> json \<Rightarrow> error + json" where
  "normalizeTermGroup opts termGroup =
     (case deleteProp ''_ObjectIdentity_'' termGroup of
        Inl e \<Rightarrow> Inl e
      | Inr g1 \<Rightarrow>
     (case deleteProp ''_ObjectType_'' g1 of
        Inl e \<Rightarrow> Inl e
      | Inr g2 \<Rightarrow>
     (case stringProp g2 ''Id'' of
        Inl e \<Rightarrow> Inl e
      | Inr i \<Rightarrow>
          Inr (setProp ''Description''
                 (JStr (if truthyOption (add_description opts)
                        then optionText (add_description opts) else []))
                 (setProp ''Id'' (JStr (unwrapGuid i)) g2)))))"

text \<open>Lines 289-301: the check of the third answer, the normalizing and the output.\<close>

definition printTermGroup ::
    "env \<Rightarrow> TermGroupAddOptions \<Rightarrow> json \<Rightarrow> string option \<Rightarrow> unit action" where
  "printTermGroup env opts termGroup termGroups =
     andThen (lift (checkTermGroups env termGroups)) (\<lambda>_.
     andThen (lift (normalizeTermGroup opts termGroup)) (\<lambda>output.
     emit (Log output)))"

text \<open>Lines 220-306, the \<^verbatim>\<open>try\<close> block of \<^verbatim>\<open>commandAction\<close>.\<close>

definition termGroupAdd_commandAction :: "env \<Rightarrow> TermGroupAddOptions \<Rightarrow> (error + unit) \<times> event list" where
  "termGroupAdd_commandAction env opts =
     andThen (connect env (add_webUrl opts)) (\<lambda>(webUrl, formDigest).
     andThen (getTermStore env opts webUrl formDigest) (\<lambda>termStore.
     andThen (createGroup env opts webUrl formDigest termStore) (\<lambda>termGroup.
     andThen (setDescription env opts webUrl formDigest termGroup) (\<lambda>termGroups.
     printTermGroup env opts termGroup termGroups)))) []"

section \<open>Option validation\<close>

text \<open>
  A validator returns \<^verbatim>\<open>true\<close> or what is wrong (\<^verbatim>\<open>boolean | string\<close>). The helpers
  \<^verbatim>\<open>validation.isValidSharePointUrl\<close> and \<^verbatim>\<open>validation.isValidGuid\<close> are not part
  of these sources; the validators take them as they are given. \<open>VOptionSet s\<close> is
  the text with which the base class refuses an invocation that does not give
  exactly one option of the registered set \<open>s\<close>; its wording is not part of these
  sources either, so it is kept apart from the texts the validators build.
\<close>

datatype verdict = VBool bool | VText string | VOptionSet "string list"

record validation =
  isValidSharePointUrl :: "string \<Rightarrow> verdict"
  isValidGuid :: "string \<Rightarrow> bool"

text \<open>Lines 64-83.\<close>

definition termSetList_validate :: "validation \<Rightarrow> TermSetListOptions \<Rightarrow> verdict" where
  "termSetList_validate v opts =
     (if truthyOption (list_webUrl opts)
         \<and> isValidSharePointUrl v (optionText (list_webUrl opts)) \<noteq> VBool True
      then isValidSharePointUrl v (optionText (list_webUrl opts))
      else if truthyOption (list_termGroupId opts)
              \<and> \<not> isValidGuid v (optionText (list_termGroupId opts))
      then VText (optionText (list_termGroupId opts) @ '' is not a valid GUID'')
      else VBool True)"

text \<open>Lines 204-218.\<close>

definition termGroupAdd_validate :: "validation \<Rightarrow> TermGroupAddOptions \<Rightarrow> verdict" where
  "termGroupAdd_validate v opts =
     (if truthyOption (add_id opts) \<and> \<not> isValidGuid v (optionText (add_id opts))
      then VText (optionText (add_id opts) @ '' is not a valid GUID'')
      else if truthyOption (add_webUrl opts)
      then isValidSharePointUrl v (optionText (add_webUrl opts))
      else VBool True)"

text \<open>
  Lines 85-87 (called at line 37): \<^verbatim>\<open>spo term set list\<close> registers one option set.
  The constructor of \<^verbatim>\<open>spo term group add\<close> (lines 169-175) registers none.
\<close>

definition termSetList_optionSets :: "string list list" where
  "termSetList_optionSets = [[''termGroupId'', ''termGroupName'']]"

definition termGroupAdd_optionSets :: "string list list" where
  "termGroupAdd_optionSets = []"

text \<open>
  The names of the options an invocation gives (the keys of \<^verbatim>\<open>args.options\<close>), for
  the options of the two \<^verbatim>\<open>Options\<close> interfaces (lines 16-20 and 153-158); \<^verbatim>\<open>name\<close>
  is required.
\<close>

definition termSetList_given :: "TermSetListOptions \<Rightarrow> string list" where
  "termSetList_given opts =
     (if list_webUrl opts \<noteq> None then [''webUrl''] else [])
     @ (if list_termGroupId opts \<noteq> None then [''termGroupId''] else [])
     @ (if list_termGroupName opts \<noteq> None then [''termGroupName''] else [])"

definition termGroupAdd_given :: "TermGroupAddOptions \<Rightarrow> string list" where
  "termGroupAdd_given opts =
     (if add_description opts \<noteq> None then [''description''] else [])
     @ (if add_id opts \<noteq> None then [''id''] else [])
     @ [''name'']
     @ (if add_webUrl opts \<noteq> None then [''webUrl''] else [])"

section \<open>What the sources do not hold\<close>

text \<open>
  Modelled from the spec: the framework that runs a command (\<^verbatim>\<open>Command.action\<close> and
  \<^verbatim>\<open>Command.validate\<close> of the base classes) is not part of these sources. Section 5
  of the specification says that "options are validated synchronously, then each
  network round trip is awaited sequentially", and section 7 that a validation error
  is "raised before any network call" and that "no network side effect occurs".
  \<open>action validate commandAction\<close> is that order: the validator first, and the
  command only when the validator returned \<^verbatim>\<open>true\<close>.
\<close>

datatype outcome = ValidationError verdict | CommandError error | Completed

definition action ::
    "('o \<Rightarrow> verdict) \<Rightarrow> ('o \<Rightarrow> (error + unit) \<times> event list) \<Rightarrow> 'o \<Rightarrow> outcome \<times> event list" where
  "action validate commandAction opts =
     (if validate opts \<noteq> VBool True then (ValidationError (validate opts), [])
      else (case commandAction opts of
              (Inl e, evs) \<Rightarrow> (CommandError e, evs)
            | (Inr _, evs) \<Rightarrow> (Completed, evs)))"

text \<open>
  Modelled from the spec: the validation that \<open>action\<close> is given is more than the
  command's own validator. Section 6 of the specification calls
  \<^verbatim>\<open>--termGroupId\<close>/\<^verbatim>\<open>--termGroupName\<close> a "mutually exclusive pair", and section 7
  counts a "missing mutually-exclusive option" among the validation errors. So
  \<open>validateOptionSets\<close> refuses an invocation that gives none, or more than one, of
  the options of a registered set, and \<open>validate\<close> is that check together with the
  command's validator. The check of the sets comes first, as the base class is
  constructed (\<^verbatim>\<open>super()\<close>) before the command pushes its validator; what is proved
  of \<open>validate\<close> below does not depend on that order.
\<close>

definition validateOptionSets :: "string list list \<Rightarrow> string list \<Rightarrow> verdict" where
  "validateOptionSets optionSets given =
     (case filter (\<lambda>s. length (filter (\<lambda>n. n \<in> set given) s) \<noteq> 1) optionSets of
        [] \<Rightarrow> VBool True
      | s # _ \<Rightarrow> VOptionSet s)"

definition validate ::
    "string list list \<Rightarrow> ('o \<Rightarrow> string list) \<Rightarrow> ('o \<Rightarrow> verdict) \<Rightarrow> 'o \<Rightarrow> verdict" where
  "validate optionSets given validator opts =
     (if validateOptionSets optionSets (given opts) \<noteq> VBool True
      then validateOptionSets optionSets (given opts)
      else validator opts)"

text \<open>
  Modelled from the spec: \<^verbatim>\<open>validation.isValidGuid\<close> and
  \<^verbatim>\<open>validation.isValidSharePointUrl\<close> are not part of these sources, and the
  specification gives examples only: \<^verbatim>\<open>11111111-1111-1111-1111-111111111111\<close> is a
  GUID, \<^verbatim>\<open>foo\<close> is not a site URL, \<^verbatim>\<open>https://contoso.sharepoint.com\<close> is one. The
  theorems below hold for every pair of helpers; \<open>exampleValidation\<close> is the pair
  their examples are run with: the 8-4-4-4-12 hexadecimal form of a GUID, and a URL
  that starts with \<^verbatim>\<open>https://\<close>.
\<close>

definition isHexDigit :: "char \<Rightarrow> bool" where
  "isHexDigit c = (c \<in> set ''0123456789abcdefABCDEF'')"

definition isGuidText :: "string \<Rightarrow> bool" where
  "isGuidText s =
     (map (\<lambda>c. if isHexDigit c then CHR ''0'' else c) s = ''00000000-0000-0000-0000-000000000000'')"

definition exampleValidation :: validation where
  "exampleValidation =
     \<lparr>isValidSharePointUrl =
        (\<lambda>u. if prefix ''https://'' u then VBool True
             else VText (u @ '' is not a valid SharePoint Online site URL'')),
      isValidGuid = isGuidText\<rparr>"

text \<open>
  Modelled from the spec: \<^verbatim>\<open>formatting.escapeXml\<close> is not part of these sources;
  section 4.1 of the specification names what it escapes: "ampersand, angle
  brackets, quotes". \<open>escapeXmlText\<close> replaces each of the four characters
  \<^verbatim>\<open>&\<close>, \<^verbatim>\<open><\<close>, \<^verbatim>\<open>>\<close> and the double quote by its entity and leaves every other
  character as it is. \<open>formatting_escapeXml x\<close> is what
  \<^verbatim>\<open>${formatting.escapeXml(x)}\<close> puts into a template literal: an option that is not
  given stays \<^verbatim>\<open>undefined\<close> and prints as its name. \<open>unescapeXml\<close> reads the four
  entities back.
\<close>

definition escapeXmlChar :: "char \<Rightarrow> string" where
  \<open>escapeXmlChar c =
     (if c = CHR ''&'' then ''&amp;'' else if c = CHR ''<'' then ''&lt;''
      else if c = CHR ''>'' then ''&gt;'' else if c = CHR ''"'' then ''&quot;''
      else [c])\<close>

definition escapeXmlText :: "string \<Rightarrow> string" where
  "escapeXmlText s = concat (map escapeXmlChar s)"

definition formatting_escapeXml :: "string option \<Rightarrow> string" where
  "formatting_escapeXml x = (case x of None \<Rightarrow> ''undefined'' | Some s \<Rightarrow> escapeXmlText s)"

function unescapeXml :: "string \<Rightarrow> string" where
  "unescapeXml [] = []"
| \<open>unescapeXml (c # cs) =
     (if c = CHR ''&'' \<and> take 4 cs = ''amp;'' then CHR ''&'' # unescapeXml (drop 4 cs)
      else if c = CHR ''&'' \<and> take 3 cs = ''lt;'' then CHR ''<'' # unescapeXml (drop 3 cs)
      else if c = CHR ''&'' \<and> take 3 cs = ''gt;'' then CHR ''>'' # unescapeXml (drop 3 cs)
      else if c = CHR ''&'' \<and> take 5 cs = ''quot;'' then CHR ''"'' # unescapeXml (drop 5 cs)
      else c # unescapeXml cs)\<close>
  by pat_completeness auto

termination unescapeXml
  by (relation "measure length") auto

text \<open>
  The collaborators of the examples, in the manner of the tests' doubles: the site
  \<^verbatim>\<open>https://contoso-admin.sharepoint.com\<close>, the digest \<^verbatim>\<open>ABC\<close>, and a server that
  answers the first, second, ... request with the first, second, ... of \<open>answers\<close> (a
  response text and what \<^verbatim>\<open>JSON.parse\<close> makes of it) and rejects any further one.
\<close>

definition exampleEnv :: "(string \<times> json) list \<Rightarrow> env" where
  "exampleEnv answers =
     \<lparr>applicationName = ''CLI for Microsoft 365'',
      escapeXml = formatting_escapeXml,
      v4 = ''6f8a4b1e-0c1d-4e2f-9a3b-5c6d7e8f9a0b'',
      getSpoAdminUrl = Inr ''https://contoso-admin.sharepoint.com'',
      getRequestDigest = (\<lambda>u. Inr ''ABC''),
      post = (\<lambda>sent r. if length sent < length answers then Inr (fst (answers ! length sent))
                         else Inl (Rejected ''Invalid request'')),
      JSON_parse = (\<lambda>text. case map_of answers text of
                              Some v \<Rightarrow> Inr v
                            | None \<Rightarrow> Inl SyntaxError)\<rparr>"

definition noErrorInfo :: json where
  "noErrorInfo =
     JObj [(''SchemaVersion'', JStr ''15.0.0.0''), (''LibraryVersion'', JStr ''16.0.8105.1215''),
           (''ErrorInfo'', JNull),
           (''TraceCorrelationId'', JStr ''8992299e-a003-4000-7686-fda36e26a53c'')]"

definition withErrorInfo :: json where
  "withErrorInfo =
     JObj [(''SchemaVersion'', JStr ''15.0.0.0''), (''LibraryVersion'', JStr ''16.0.8105.1215''),
           (''ErrorInfo'',
            JObj [(''ErrorMessage'', JStr ''An error has occurred''), (''ErrorValue'', JNull),
                  (''ErrorCode'', JNum (- 1)),
                  (''ErrorTypeName'', JStr ''Microsoft.SharePoint.Client.UnknownError'')]),
           (''TraceCorrelationId'', JStr ''8992299e-a003-4000-7686-fda36e26a53c'')]"

definition exampleTermSet :: json where
  "exampleTermSet =
     JObj [(''_ObjectType_'', JStr ''SP.Taxonomy.TermSet''),
           (''_ObjectIdentity_'', JStr ''8992299e-a003-4000-7686-fda36e26a53c|fec14c62:gr:0e8f395e-ff58-4d45-9ff7-e331ab728beb''),
           (''CreatedDate'', JStr ''/Date(1536839573337)/''),
           (''Id'', JStr ''/Guid(7a167c47-2b37-41d0-94d0-e962c1a4f2ed)/''),
           (''LastModifiedDate'', JStr ''/Date(1536840826883)/''),
           (''Name'', JStr ''PnP-CollabFooter-SharedLinks'')]"

definition exampleTermStore :: json where
  "exampleTermStore =
     JObj [(''_ObjectType_'', JStr ''SP.Taxonomy.TermStore''),
           (''_ObjectIdentity_'', JStr ''8992299e-a003-4000-7686-fda36e26a53c|fec14c62:st:YU1+cBy9wUuh/fzgFZGpUQ==''),
           (''Name'', JStr ''Taxonomy_Dmxzz8tIBzk8wNVKW7sW6w=='')]"

definition exampleTermGroup :: json where
  "exampleTermGroup =
     JObj [(''_ObjectType_'', JStr ''SP.Taxonomy.TermGroup''),
           (''_ObjectIdentity_'', JStr ''8992299e-a003-4000-7686-fda36e26a53c|fec14c62:gr:YU1+cBy9wUuh/fzgFZGpUV45jw5Y/0VNn/fjMatyi+s=''),
           (''Name'', JStr ''PnPTermSets''),
           (''Id'', JStr ''/Guid(0e8f395e-ff58-4d45-9ff7-e331ab728beb)/''),
           (''Description'', JStr [])]"

definition listOptions :: TermSetListOptions where
  "listOptions =
     \<lparr>list_verbose = False, list_webUrl = Some ''https://contoso.sharepoint.com'',
      list_termGroupId = Some ''11111111-1111-1111-1111-111111111111'',
      list_termGroupName = None\<rparr>"

definition addOptions :: TermGroupAddOptions where
  \<open>addOptions =
     \<lparr>add_verbose = False, add_description = Some ''Sets of <R&D> "terms"'',
      add_id = Some ''0e8f395e-ff58-4d45-9ff7-e331ab728beb'', add_name = ''R&D'',
      add_webUrl = None\<rparr>\<close>

text \<open>
  The answers of a server to \<^verbatim>\<open>spo term group add\<close> (the term store, the new group,
  the answer to \<^verbatim>\<open>SetProperty\<close>) and to \<^verbatim>\<open>spo term set list\<close> (one term set).
\<close>

definition addAnswers :: "(string \<times> json) list" where
  "addAnswers =
     [(''[1]'', JArr [noErrorInfo, JNum 4, JObj [(''IsNull'', JBool False)], JNum 5, exampleTermStore]),
      (''[2]'', JArr [noErrorInfo, JNum 14, JObj [(''IsNull'', JBool False)], JNum 15, exampleTermGroup]),
      (''[3]'', JArr [noErrorInfo])]"

definition listAnswers :: "(string \<times> json) list" where
  "listAnswers =
     [(''[1]'',
       JArr [noErrorInfo, JNum 67,
             JObj [(''_ObjectType_'', JStr ''SP.Taxonomy.TermSetCollection''),
                   (''_Child_Items_'', JArr [exampleTermSet])]])]"

section \<open>Reading an ISO text back\<close>

text \<open>
  Modelled from the spec: the commands only unwrap; the "re-wrapping" of section 8 of
  the specification is no code of theirs. To say that the milliseconds are
  recovered, \<open>parseISO\<close> reads back the format \<^verbatim>\<open>toISOString\<close> writes, as
  \<^verbatim>\<open>Date.parse\<close> does, with the \<open>MakeTime\<close>, \<open>MakeDay\<close> and \<open>MakeDate\<close> of
  ECMA-262.
\<close>

definition MakeTime :: "int \<Rightarrow> int \<Rightarrow> int \<Rightarrow> int \<Rightarrow> int" where
  "MakeTime h m s ms = h * 3600000 + m * 60000 + s * 1000 + ms"

definition MakeDay :: "int \<Rightarrow> int \<Rightarrow> int \<Rightarrow> int" where
  "MakeDay y m dt =
     (let ym = y + m div 12; mn = m mod 12
      in DayFromYear ym + monthStart (if isLeapYear ym then 1 else 0) mn + dt - 1)"

definition MakeDate :: "int \<Rightarrow> int \<Rightarrow> int" where
  "MakeDate day time = day * msPerDay + time"

definition digitsValue :: "string \<Rightarrow> int option" where
  "digitsValue ds = (if isDecimal ds then Some (intOfDigits ds) else None)"

definition isoYearAndRest :: "string \<Rightarrow> (int \<times> string) option" where
  "isoYearAndRest s =
     (case s of
        [] \<Rightarrow> None
      | c # cs \<Rightarrow>
          if c = CHR ''+'' then map_option (\<lambda>y. (y, drop 6 cs)) (digitsValue (take 6 cs))
          else if c = CHR ''-'' then map_option (\<lambda>y. (- y, drop 6 cs)) (digitsValue (take 6 cs))
          else map_option (\<lambda>y. (y, drop 4 s)) (digitsValue (take 4 s)))"

definition isoFields :: "string \<Rightarrow> int option list" where
  "isoFields r =
     [digitsValue (take 2 (drop 1 r)), digitsValue (take 2 (drop 4 r)),
      digitsValue (take 2 (drop 7 r)), digitsValue (take 2 (drop 10 r)),
      digitsValue (take 2 (drop 13 r)), digitsValue (take 3 (drop 16 r))]"

definition isoSeparators :: "string \<Rightarrow> string" where
  "isoSeparators r = [r ! 0, r ! 3, r ! 6, r ! 9, r ! 12, r ! 15, r ! 19]"

definition parseISO :: "string \<Rightarrow> int option" where
  "parseISO s =
     (case isoYearAndRest s of
        None \<Rightarrow> None
      | Some (y, r) \<Rightarrow>
          if length r = 20 \<and> isoSeparators r = ''--T::.Z'' then
            (case isoFields r of
               [Some mo, Some d, Some h, Some mi, Some sec, Some ms] \<Rightarrow>
                 Some (MakeDate (MakeDay y (mo - 1) d) (MakeTime h mi sec ms))
             | _ \<Rightarrow> None)
          else None)"

text \<open>The texts \<^verbatim>\<open>[+-]?[0-9]+\<close>: a decimal integer.\<close>

definition isDecimalInteger :: "string \<Rightarrow> bool" where
  "isDecimalInteger s =
     (case s of
        [] \<Rightarrow> False
      | c # ds \<Rightarrow> (c = CHR ''-'' \<or> c = CHR ''+'') \<and> isDecimal ds \<or> isDecimal s)"

section \<open>Events of the steps\<close>

lemma posts_append: "posts (xs @ ys) = posts xs @ posts ys"
  by (induction xs rule: posts.induct) simp_all

lemma logged_append: "logged (xs @ ys) = logged xs @ logged ys"
  by (induction xs rule: logged.induct) simp_all

lemma connect_quiet:
  assumes "connect env w [] = (r, evs)"
  shows "posts evs = [] \<and> logged evs = []"
  using assms
  by (auto simp add: connect_def resolveWebUrl_def done_with_def callGetSpoAdminUrl_def
      callGetRequestDigest_def andThen_def split: option.splits if_splits sum.splits)

lemma whenVerbose_eq:
  "whenVerbose b msg evs = (Inr (), evs @ (if b then [LogToStderr msg] else []))"
  by (simp add: whenVerbose_def emit_def done_with_def)

lemma termSetList_output_events:
  "termSetList_output result evs = (r, evs') \<Longrightarrow> posts evs' = posts evs"
  by (auto simp add: termSetList_output_def andThen_def lift_def done_with_def emit_def
      posts_append split: sum.splits if_splits)

lemma termSetList_response_events:
  "termSetList_response env raw evs = (r, evs') \<Longrightarrow> posts evs' = posts evs"
  by (auto simp add: termSetList_response_def andThen_def lift_def
      dest: termSetList_output_events split: sum.splits)

lemma termSetList_run:
  assumes "connect env (list_webUrl opts) [] = (Inr (u, d), evs0)"
    and "post env [] (termSetList_request env opts u d) = Inr raw"
  shows "\<exists>evs. posts evs = [termSetList_request env opts u d] \<and> logged evs = []
           \<and> termSetList_commandAction env opts = termSetList_response env raw evs"
proof -
  have quiet: "posts evs0 = []" "logged evs0 = []"
    using connect_quiet [OF assms(1)] by simp_all
  let ?evs = "(evs0 @ (if list_verbose opts then [LogToStderr ''Retrieving taxonomy term sets...''] else []))
                @ [Post (termSetList_request env opts u d)]"
  have "posts ?evs = [termSetList_request env opts u d]" "logged ?evs = []"
    using quiet by (simp_all add: posts_append logged_append)
  moreover have "termSetList_commandAction env opts = termSetList_response env raw ?evs"
    using assms quiet
    by (simp add: termSetList_commandAction_def andThen_def callPost_def posts_append
        whenVerbose_eq)
  ultimately show ?thesis by blast
qed

lemma termSetList_sends:
  assumes "connect env (list_webUrl opts) [] = (Inr (u, d), evs0)"
  shows "posts (snd (termSetList_commandAction env opts)) = [termSetList_request env opts u d]"
proof -
  have quiet: "posts evs0 = []" using connect_quiet [OF assms] by simp
  let ?req = "termSetList_request env opts u d"
  let ?evs = "(evs0 @ (if list_verbose opts then [LogToStderr ''Retrieving taxonomy term sets...''] else []))
                @ [Post ?req]"
  have p: "posts ?evs = [?req]" using quiet by (simp add: posts_append)
  show ?thesis
  proof (cases "post env [] ?req")
    case (Inl e)
    then have "termSetList_commandAction env opts = (Inl e, ?evs)"
      using assms quiet
      by (simp add: termSetList_commandAction_def andThen_def callPost_def posts_append
          whenVerbose_eq)
    with p show ?thesis by simp
  next
    case (Inr raw)
    then have "termSetList_commandAction env opts = termSetList_response env raw ?evs"
      using assms quiet
      by (simp add: termSetList_commandAction_def andThen_def callPost_def posts_append
          whenVerbose_eq)
    then have "posts (snd (termSetList_commandAction env opts)) = posts ?evs"
      using termSetList_response_events [of env raw ?evs] by (metis prod.collapse)
    with p show ?thesis by simp
  qed
qed

lemma termSetList_posts:
  assumes "r \<in> set (posts (snd (termSetList_commandAction env opts)))"
  shows "data r = termSetList_data env opts"
proof -
  obtain r0 evs0 where c: "connect env (list_webUrl opts) [] = (r0, evs0)" by fastforce
  show ?thesis
  proof (cases r0)
    case (Inl e)
    with c connect_quiet [OF c] assms show ?thesis
      by (simp add: termSetList_commandAction_def andThen_def)
  next
    case (Inr ud)
    obtain u d where "ud = (u, d)" by (cases ud)
    with c Inr assms termSetList_sends [of env opts u d evs0] show ?thesis
      by (simp add: termSetList_request_def)
  qed
qed

section \<open>The steps of \<^verbatim>\<open>spo term group add\<close>\<close>

lemma getTermStore_eq:
  "getTermStore env opts u d evs =
     (case post env (posts evs) (termStore_request env u d) of
        Inl e \<Rightarrow> Inl e
      | Inr raw \<Rightarrow> (case parseResponse env raw of Inl e \<Rightarrow> Inl e | Inr js \<Rightarrow> decodeResult js),
      evs @ (if add_verbose opts then [LogToStderr ''Getting taxonomy term store...''] else [])
          @ [Post (termStore_request env u d)])"
  by (simp add: getTermStore_def andThen_def whenVerbose_eq callPost_def lift_def posts_append
      split: sum.splits)

lemma createGroup_eq:
  "createGroup env opts u d termStore evs =
     (case createGroup_request env opts u d termStore of
        Inl e \<Rightarrow>
          (Inl e, evs @ (if add_verbose opts then [LogToStderr ''Adding taxonomy term group...''] else []))
      | Inr req \<Rightarrow>
          (case post env (posts evs) req of
             Inl e \<Rightarrow> Inl e
           | Inr raw \<Rightarrow> (case parseResponse env raw of Inl e \<Rightarrow> Inl e | Inr js \<Rightarrow> decodeResult js),
           evs @ (if add_verbose opts then [LogToStderr ''Adding taxonomy term group...''] else [])
               @ [Post req]))"
  by (simp add: createGroup_def andThen_def whenVerbose_eq callPost_def lift_def posts_append
      split: sum.splits)

lemma setDescription_eq:
  "setDescription env opts u d termGroup evs =
     (if truthyOption (add_description opts) then
        (case setDescription_request env opts u d termGroup of
           Inl e \<Rightarrow>
             (Inl e, evs @ (if add_verbose opts
                           then [LogToStderr ''Setting taxonomy term group description...''] else []))
         | Inr req \<Rightarrow>
             (case post env (posts evs) req of Inl e \<Rightarrow> Inl e | Inr raw \<Rightarrow> Inr (Some raw),
              evs @ (if add_verbose opts
                     then [LogToStderr ''Setting taxonomy term group description...''] else [])
                  @ [Post req]))
      else (Inr None, evs))"
  by (simp add: setDescription_def andThen_def whenVerbose_eq callPost_def lift_def posts_append
      done_with_def split: sum.splits)

lemma printTermGroup_eq:
  "printTermGroup env opts termGroup termGroups evs =
     (case checkTermGroups env termGroups of
        Inl e \<Rightarrow> (Inl e, evs)
      | Inr _ \<Rightarrow>
          (case normalizeTermGroup opts termGroup of
             Inl e \<Rightarrow> (Inl e, evs)
           | Inr out \<Rightarrow> (Inr (), evs @ [Log out])))"
  by (simp add: printTermGroup_def andThen_def lift_def emit_def split: sum.splits)

lemma termGroupAdd_eq:
  "termGroupAdd_commandAction env opts =
     (case connect env (add_webUrl opts) [] of
        (Inl e, evs0) \<Rightarrow> (Inl e, evs0)
      | (Inr (u, d), evs0) \<Rightarrow>
     (case getTermStore env opts u d evs0 of
        (Inl e, evs1) \<Rightarrow> (Inl e, evs1)
      | (Inr termStore, evs1) \<Rightarrow>
     (case createGroup env opts u d termStore evs1 of
        (Inl e, evs2) \<Rightarrow> (Inl e, evs2)
      | (Inr termGroup, evs2) \<Rightarrow>
     (case setDescription env opts u d termGroup evs2 of
        (Inl e, evs3) \<Rightarrow> (Inl e, evs3)
      | (Inr termGroups, evs3) \<Rightarrow> printTermGroup env opts termGroup termGroups evs3))))"
  by (simp add: termGroupAdd_commandAction_def andThen_def split: sum.splits prod.splits)

lemma getTermStore_posts:
  "getTermStore env opts u d evs = (r, evs') \<Longrightarrow>
     posts evs' = posts evs @ [termStore_request env u d] \<and> logged evs' = logged evs"
  by (auto simp add: getTermStore_eq posts_append logged_append)

lemma createGroup_posts:
  "createGroup env opts u d termStore evs = (r, evs') \<Longrightarrow>
     logged evs' = logged evs
     \<and> (case createGroup_request env opts u d termStore of
           Inl e \<Rightarrow> posts evs' = posts evs \<and> r = Inl e
         | Inr req \<Rightarrow> posts evs' = posts evs @ [req])"
  by (auto simp add: createGroup_eq posts_append logged_append split: sum.splits)

lemma setDescription_posts:
  "setDescription env opts u d termGroup evs = (r, evs') \<Longrightarrow>
     logged evs' = logged evs
     \<and> (if truthyOption (add_description opts) then
           (case setDescription_request env opts u d termGroup of
              Inl e \<Rightarrow> posts evs' = posts evs \<and> r = Inl e
            | Inr req \<Rightarrow> posts evs' = posts evs @ [req])
         else posts evs' = posts evs \<and> r = Inr None)"
  by (auto simp add: setDescription_eq posts_append logged_append split: sum.splits if_splits)

lemma printTermGroup_posts:
  "printTermGroup env opts termGroup termGroups evs = (r, evs') \<Longrightarrow> posts evs' = posts evs"
  by (auto simp add: printTermGroup_eq posts_append split: sum.splits)


lemma createGroup_request_data:
  "createGroup_request env opts u d termStore = Inr req \<Longrightarrow>
     \<exists>i. data req = createGroup_data env opts i"
  by (auto simp add: createGroup_request_def split: sum.splits)

lemma setDescription_request_data:
  "setDescription_request env opts u d termGroup = Inr req \<Longrightarrow>
     \<exists>i. data req = setDescription_data env opts i"
  by (auto simp add: setDescription_request_def split: sum.splits)

lemma termGroupAdd_posts:
  assumes "r \<in> set (posts (snd (termGroupAdd_commandAction env opts)))"
  shows "data r = termStore_data env \<or> (\<exists>i. data r = createGroup_data env opts i)
          \<or> (\<exists>i. data r = setDescription_data env opts i)"
proof -
  obtain r0 evs0 where c: "connect env (add_webUrl opts) [] = (r0, evs0)" by fastforce
  have p0: "posts evs0 = []" using connect_quiet [OF c] by simp
  show ?thesis
  proof (cases r0)
    case (Inl e)
    with c p0 assms show ?thesis by (auto simp add: termGroupAdd_eq)
  next
    case (Inr ud)
    obtain u d where ud: "ud = (u, d)" by (cases ud)
    obtain r1 evs1 where s1: "getTermStore env opts u d evs0 = (r1, evs1)" by fastforce
    have p1: "posts evs1 = [termStore_request env u d]"
      using getTermStore_posts [OF s1] p0 by simp
    have d1: "data (termStore_request env u d) = termStore_data env"
      by (simp add: termStore_request_def)
    show ?thesis
    proof (cases r1)
      case (Inl e)
      with c Inr ud s1 p1 d1 assms show ?thesis by (auto simp add: termGroupAdd_eq)
    next
      case termStore: (Inr termStore)
      obtain r2 evs2 where s2: "createGroup env opts u d termStore evs1 = (r2, evs2)" by fastforce
      have p2: "\<forall>q \<in> set (posts evs2). data q = termStore_data env
                  \<or> (\<exists>i. data q = createGroup_data env opts i)"
        using createGroup_posts [OF s2] p1 d1
        by (auto split: sum.splits dest: createGroup_request_data)
      show ?thesis
      proof (cases r2)
        case (Inl e)
        with c Inr ud s1 termStore s2 p2 assms show ?thesis by (auto simp add: termGroupAdd_eq)
      next
        case termGroup: (Inr termGroup)
        obtain r3 evs3 where s3: "setDescription env opts u d termGroup evs2 = (r3, evs3)"
          by fastforce
        have p3: "\<forall>q \<in> set (posts evs3). data q = termStore_data env
                  \<or> (\<exists>i. data q = createGroup_data env opts i)
                  \<or> (\<exists>i. data q = setDescription_data env opts i)"
          using setDescription_posts [OF s3] p2
          by (auto split: sum.splits if_splits dest: setDescription_request_data)
        show ?thesis
        proof (cases r3)
          case (Inl e)
          with c Inr ud s1 termStore s2 termGroup s3 p3 assms show ?thesis
            by (auto simp add: termGroupAdd_eq)
        next
          case termGroups: (Inr termGroups)
          obtain r4 evs4 where s4: "printTermGroup env opts termGroup termGroups evs3 = (r4, evs4)"
            by fastforce
          have "posts evs4 = posts evs3" using printTermGroup_posts [OF s4] .
          with c Inr ud s1 termStore s2 termGroup s3 termGroups s4 p3 assms show ?thesis
            by (auto simp add: termGroupAdd_eq)
        qed
      qed
    qed
  qed
qed

lemmas example_defs = exampleEnv_def noErrorInfo_def withErrorInfo_def listOptions_def addOptions_def
  exampleTermStore_def exampleTermGroup_def exampleTermSet_def addAnswers_def listAnswers_def
  escapeXmlText_def escapeXmlChar_def formatting_escapeXml_def

lemmas action_defs = andThen_def lift_def done_with_def emit_def whenVerbose_def callPost_def
  callGetRequestDigest_def callGetSpoAdminUrl_def resolveWebUrl_def connect_def parseResponse_def

lemmas step_defs = andThen_def lift_def done_with_def emit_def whenVerbose_def callPost_def
  callGetRequestDigest_def callGetSpoAdminUrl_def resolveWebUrl_def connect_def parseResponse_def
  decodeResult_def checkErrorInfo_def element0_def lastElement_def

lemmas add_defs = getTermStore_def createGroup_def setDescription_def printTermGroup_def
  checkTermGroups_def createGroup_request_def setDescription_request_def termStore_request_def
  objectIdentity_def normalizeTermGroup_def stringProp_def termGroupId_def

lemma addExample_connect:
  "connect (exampleEnv answers) (add_webUrl addOptions) []
     = (Inr (''https://contoso-admin.sharepoint.com'', ''ABC''),
        [GetSpoAdminUrl, GetRequestDigest ''https://contoso-admin.sharepoint.com''])"
  by (simp add: step_defs exampleEnv_def addOptions_def)


section \<open>Decoding\<close>

text \<open>
  Claim C1. When element 0 of a decoded response carries an \<^verbatim>\<open>ErrorInfo\<close> object, the
  decoder throws exactly its \<^verbatim>\<open>ErrorMessage\<close>, whatever the rest of the array holds:
  the check and the decoder of both commands; the response handling of
  \<^verbatim>\<open>spo term set list\<close>, which adds no event; and \<^verbatim>\<open>spo term group add\<close>, which ends
  after its first request, with nothing logged.
\<close>

theorem server_error_is_raised:
  assumes "map_of props ''ErrorInfo'' = Some (JObj errorInfo)"
    and "map_of errorInfo ''ErrorMessage'' = Some msg"
    and "parseResponse env raw = Inr (JObj props # rest)"
  shows "checkErrorInfo (JObj props # rest) = Inl (ServerError msg)
    \<and> decodeResult (JObj props # rest) = Inl (ServerError msg)
    \<and> termSetList_response env raw evs = (Inl (ServerError msg), evs)
    \<and> (connect env (add_webUrl opts) [] = (Inr (u, d), evs0)
         \<and> post env [] (termStore_request env u d) = Inr raw
       \<longrightarrow> fst (termGroupAdd_commandAction env opts) = Inl (ServerError msg)
         \<and> posts (snd (termGroupAdd_commandAction env opts)) = [termStore_request env u d]
         \<and> logged (snd (termGroupAdd_commandAction env opts)) = [])"
proof -
  have c: "checkErrorInfo (JObj props # rest) = Inl (ServerError msg)"
    using assms(1,2) by (simp add: checkErrorInfo_def element0_def)
  then have d: "decodeResult (JObj props # rest) = Inl (ServerError msg)"
    by (simp add: decodeResult_def)
  have r: "termSetList_response env raw evs = (Inl (ServerError msg), evs)"
    using assms(3) d by (simp add: termSetList_response_def andThen_def lift_def)
  have "fst (termGroupAdd_commandAction env opts) = Inl (ServerError msg)
         \<and> posts (snd (termGroupAdd_commandAction env opts)) = [termStore_request env u d]
         \<and> logged (snd (termGroupAdd_commandAction env opts)) = []"
    if connected: "connect env (add_webUrl opts) [] = (Inr (u, d), evs0)"
      and answered: "post env [] (termStore_request env u d) = Inr raw"
  proof -
    have quiet: "posts evs0 = []" "logged evs0 = []"
      using connect_quiet [OF connected] by simp_all
    have "getTermStore env opts u d evs0
        = (Inl (ServerError msg),
           evs0 @ (if add_verbose opts then [LogToStderr ''Getting taxonomy term store...''] else [])
             @ [Post (termStore_request env u d)])"
      using quiet answered assms(3) d by (simp add: getTermStore_eq)
    then show ?thesis
      using connected quiet by (simp add: termGroupAdd_eq posts_append logged_append)
  qed
  with c d r show ?thesis by blast
qed

theorem server_error_is_raised_witness:
  "termSetList_response (exampleEnv [(''[..]'', JArr [withErrorInfo, JNum 67, JNull])]) ''[..]'' []
     = (Inl (ServerError (JStr ''An error has occurred'')), [])
   \<and> fst (termGroupAdd_commandAction (exampleEnv [(''[..]'', JArr [withErrorInfo, JNum 67, JNull])]) addOptions)
     = Inl (ServerError (JStr ''An error has occurred''))
   \<and> length (posts (snd (termGroupAdd_commandAction
        (exampleEnv [(''[..]'', JArr [withErrorInfo, JNum 67, JNull])]) addOptions))) = 1"
proof -
  let ?env = "exampleEnv [(''[..]'', JArr [withErrorInfo, JNum 67, JNull])]"
  let ?info = "[(''ErrorMessage'', JStr ''An error has occurred''), (''ErrorValue'', JNull),
                  (''ErrorCode'', JNum (- 1)),
                  (''ErrorTypeName'', JStr ''Microsoft.SharePoint.Client.UnknownError'')]"
  let ?props = "[(''SchemaVersion'', JStr ''15.0.0.0''), (''LibraryVersion'', JStr ''16.0.8105.1215''),
           (''ErrorInfo'', JObj ?info),
           (''TraceCorrelationId'', JStr ''8992299e-a003-4000-7686-fda36e26a53c'')]"
  have h1: "map_of ?props ''ErrorInfo'' = Some (JObj ?info)" by simp
  have h2: "map_of ?info ''ErrorMessage'' = Some (JStr ''An error has occurred'')" by simp
  have h3: "parseResponse ?env ''[..]'' = Inr (JObj ?props # [JNum 67, JNull])"
    by (simp add: parseResponse_def exampleEnv_def withErrorInfo_def)
  have h4: "connect ?env (add_webUrl addOptions) [] = (Inr (''https://contoso-admin.sharepoint.com'', ''ABC''), [GetSpoAdminUrl, GetRequestDigest ''https://contoso-admin.sharepoint.com''])"
    by (simp add: action_defs example_defs)
  have h5: "post ?env [] (termStore_request ?env ''https://contoso-admin.sharepoint.com'' ''ABC'') = Inr ''[..]''"
    by (simp add: exampleEnv_def)
  show ?thesis
    using server_error_is_raised [OF h1 h2 h3, of "[]" addOptions "''https://contoso-admin.sharepoint.com''" "''ABC''"
        "[GetSpoAdminUrl, GetRequestDigest ''https://contoso-admin.sharepoint.com'']"] h4 h5
    by simp
qed


text \<open>
  Claim C2. When element 0 of a decoded response has a null (or no) \<^verbatim>\<open>ErrorInfo\<close>, the
  decoder returns the last element of the array as it is, and
  \<^verbatim>\<open>spo term set list\<close> goes on with that element.
\<close>

theorem last_element_is_result:
  assumes "map_of props ''ErrorInfo'' = Some JNull \<or> map_of props ''ErrorInfo'' = None"
    and "parseResponse env raw = Inr (JObj props # rest)"
  shows "decodeResult (JObj props # rest) = Inr (last (JObj props # rest))
    \<and> termSetList_response env raw evs = termSetList_output (last (JObj props # rest)) evs"
proof -
  have "checkErrorInfo (JObj props # rest) = Inr ()"
    using assms(1) by (auto simp add: checkErrorInfo_def element0_def)
  then have d: "decodeResult (JObj props # rest) = Inr (last (JObj props # rest))"
    by (simp add: decodeResult_def lastElement_def last_conv_nth)
  then show ?thesis
    using assms(2) by (simp add: termSetList_response_def andThen_def lift_def)
qed

theorem last_element_is_result_witness:
  "decodeResult [noErrorInfo, JNum 67, JObj [(''_Child_Items_'', JArr [exampleTermSet])]]
     = Inr (JObj [(''_Child_Items_'', JArr [exampleTermSet])])
   \<and> termSetList_response
        (exampleEnv [(''[..]'', JArr [noErrorInfo, JNum 67, JObj [(''_Child_Items_'', JArr [exampleTermSet])]])])
        ''[..]'' []
     = termSetList_output (JObj [(''_Child_Items_'', JArr [exampleTermSet])]) []"
proof -
  let ?result = "JObj [(''_Child_Items_'', JArr [exampleTermSet])]"
  let ?env = "exampleEnv [(''[..]'', JArr [noErrorInfo, JNum 67, ?result])]"
  let ?props = "[(''SchemaVersion'', JStr ''15.0.0.0''), (''LibraryVersion'', JStr ''16.0.8105.1215''),
           (''ErrorInfo'', JNull),
           (''TraceCorrelationId'', JStr ''8992299e-a003-4000-7686-fda36e26a53c'')]"
  have h1: "map_of ?props ''ErrorInfo'' = Some JNull \<or> map_of ?props ''ErrorInfo'' = None" by simp
  have h2: "parseResponse ?env ''[..]'' = Inr (JObj ?props # [JNum 67, ?result])"
    by (simp add: parseResponse_def exampleEnv_def noErrorInfo_def)
  show ?thesis
    using last_element_is_result [OF h1 h2, of "[]"] by (simp add: noErrorInfo_def)
qed

text \<open>
  Claim C10. A run of \<^verbatim>\<open>spo term set list\<close> whose decoded result has no
  \<^verbatim>\<open>_Child_Items_\<close>, or an empty one, succeeds and never calls \<^verbatim>\<open>logger.log\<close>.
\<close>

theorem no_child_items_no_log:
  assumes "connect env (list_webUrl opts) [] = (Inr (u, d), evs0)"
    and "post env [] (termSetList_request env opts u d) = Inr raw"
    and "parseResponse env raw = Inr js"
    and "decodeResult js = Inr result"
    and "getProp result ''_Child_Items_'' = Inr items"
    and "items = JUndefined \<or> items = JArr []"
  shows "termSetList_response env raw evs = (Inr (), evs)
    \<and> fst (termSetList_commandAction env opts) = Inr ()
    \<and> logged (snd (termSetList_commandAction env opts)) = []"
proof -
  have "termSetList_output result evs' = (Inr (), evs')" for evs'
    using assms(5,6)
    by (auto simp add: termSetList_output_def andThen_def lift_def done_with_def)
  then have r: "termSetList_response env raw evs' = (Inr (), evs')" for evs'
    using assms(3,4) by (simp add: termSetList_response_def andThen_def lift_def)
  obtain evs1 where "logged evs1 = []"
      "termSetList_commandAction env opts = termSetList_response env raw evs1"
    using termSetList_run [OF assms(1,2)] by blast
  with r show ?thesis by simp
qed

theorem no_child_items_no_log_witness:
  "fst (termSetList_commandAction
          (exampleEnv [(''[..]'', JArr [noErrorInfo, JNum 67, JObj [(''_Child_Items_'', JArr [])]])])
          listOptions) = Inr ()
   \<and> logged (snd (termSetList_commandAction
          (exampleEnv [(''[..]'', JArr [noErrorInfo, JNum 67, JObj [(''_Child_Items_'', JArr [])]])])
          listOptions)) = []"
proof -
  let ?result = "JObj [(''_Child_Items_'', JArr [])]"
  let ?env = "exampleEnv [(''[..]'', JArr [noErrorInfo, JNum 67, ?result])]"
  have h1: "connect ?env (list_webUrl listOptions) []
      = (Inr (''https://contoso.sharepoint.com'', ''ABC''), [GetRequestDigest ''https://contoso.sharepoint.com''])"
    by (simp add: action_defs example_defs)
  have h2: "post ?env [] (termSetList_request ?env listOptions ''https://contoso.sharepoint.com'' ''ABC'') = Inr ''[..]''"
    by (simp add: exampleEnv_def)
  have h3: "parseResponse ?env ''[..]'' = Inr [noErrorInfo, JNum 67, ?result]"
    by (simp add: parseResponse_def exampleEnv_def)
  have h4: "decodeResult [noErrorInfo, JNum 67, ?result] = Inr ?result"
    by (simp add: decodeResult_def checkErrorInfo_def element0_def lastElement_def noErrorInfo_def)
  have h5: "getProp ?result ''_Child_Items_'' = Inr (JArr [])" by simp
  show ?thesis
    using no_child_items_no_log [OF h1 h2 h3 h4 h5] by simp
qed

section \<open>Unwrapping\<close>

lemma replace_prefix: "pat \<noteq> [] \<Longrightarrow> replace pat rep (pat @ s) = rep @ s"
  by (cases pat) simp_all

lemma replace_first_at_end:
  "c \<notin> set s \<Longrightarrow> replace (c # cs) rep (s @ c # cs) = s @ rep"
  by (induction s) auto

lemma unwrapGuid_wrapped:
  assumes "CHR '')'' \<notin> set g"
  shows "unwrapGuid (''/Guid('' @ g @ '')/'') = g"
proof -
  have "replace ''/Guid('' [] (''/Guid('' @ g @ '')/'') = g @ '')/''"
    by (rule replace_prefix [where rep = "[]", simplified]) simp
  moreover have "replace '')/'' [] (g @ '')/'') = g"
    using replace_first_at_end [OF assms, of "''/''" "[]"] by simp
  ultimately show ?thesis by (simp add: unwrapGuid_def)
qed

lemma map_of_filter_other:
  "k' \<noteq> k \<Longrightarrow> map_of (filter (\<lambda>kv. fst kv \<noteq> k) kvs) k' = map_of kvs k'"
  by (induction kvs) auto

lemma map_of_filter_same: "map_of (filter (\<lambda>kv. fst kv \<noteq> k) kvs) k = None"
  by (induction kvs) auto

lemma normalizeTermSet_Id:
  assumes "map_of kvs ''Id'' = Some (JStr i)" and "normalizeTermSet (JObj kvs) = Inr t"
  shows "getProp t ''Id'' = Inr (JStr (unwrapGuid i))"
  using assms
  by (auto simp add: normalizeTermSet_def stringProp_def update_conv' Let_def
      split: sum.splits json.splits option.splits)

lemma normalizeTermGroup_Id:
  assumes "map_of kvs ''Id'' = Some (JStr i)"
  shows "\<exists>out. normalizeTermGroup opts (JObj kvs) = Inr out
           \<and> getProp out ''Id'' = Inr (JStr (unwrapGuid i))"
  using assms
  by (simp add: normalizeTermGroup_def stringProp_def update_conv' map_of_filter_other
      del: filter_filter)

text \<open>
  Claim C5. For a wrapped GUID \<^verbatim>\<open>/Guid(g)/\<close> the unwrapping yields exactly \<open>g\<close>: the
  text of a GUID has no closing parenthesis in it, which is all that is used. So
  does the \<^verbatim>\<open>Id\<close> of every term set that \<^verbatim>\<open>spo term set list\<close> normalizes and of
  the group that \<^verbatim>\<open>spo term group add\<close> prints.
\<close>

theorem guid_is_unwrapped:
  assumes "CHR '')'' \<notin> set g"
  shows "unwrapGuid (''/Guid('' @ g @ '')/'') = g
    \<and> (map_of kvs ''Id'' = Some (JStr (''/Guid('' @ g @ '')/''))
         \<and> normalizeTermSet (JObj kvs) = Inr t
       \<longrightarrow> getProp t ''Id'' = Inr (JStr g))
    \<and> (map_of kvs ''Id'' = Some (JStr (''/Guid('' @ g @ '')/''))
       \<longrightarrow> (\<exists>out. normalizeTermGroup opts (JObj kvs) = Inr out
              \<and> getProp out ''Id'' = Inr (JStr g)))"
  using unwrapGuid_wrapped [OF assms] normalizeTermSet_Id [of kvs "''/Guid('' @ g @ '')/''" t]
    normalizeTermGroup_Id [of kvs "''/Guid('' @ g @ '')/''" opts]
  by auto

theorem guid_is_unwrapped_witness:
  "unwrapGuid ''/Guid(0e8f395e-ff58-4d45-9ff7-e331ab728beb)/'' = ''0e8f395e-ff58-4d45-9ff7-e331ab728beb''
   \<and> (\<exists>out. normalizeTermGroup addOptions exampleTermGroup = Inr out
          \<and> getProp out ''Id'' = Inr (JStr ''0e8f395e-ff58-4d45-9ff7-e331ab728beb''))"
proof -
  have h: "CHR '')'' \<notin> set ''0e8f395e-ff58-4d45-9ff7-e331ab728beb''" by simp
  have i: "map_of [(''_ObjectType_'', JStr ''SP.Taxonomy.TermGroup''),
           (''_ObjectIdentity_'', JStr ''8992299e-a003-4000-7686-fda36e26a53c|fec14c62:gr:YU1+cBy9wUuh/fzgFZGpUV45jw5Y/0VNn/fjMatyi+s=''),
           (''Name'', JStr ''PnPTermSets''),
           (''Id'', JStr ''/Guid(0e8f395e-ff58-4d45-9ff7-e331ab728beb)/''),
           (''Description'', JStr [])] ''Id''
       = Some (JStr (''/Guid('' @ ''0e8f395e-ff58-4d45-9ff7-e331ab728beb'' @ '')/''))"
    by simp
  show ?thesis
    using guid_is_unwrapped [OF h, of _ _ addOptions] i
    unfolding exampleTermGroup_def by simp
qed


lemma keys_update: "fst ` set (AList.update k v kvs) = insert k (fst ` set kvs)"
  by (simp add: dom_update)

lemma normalizeTermGroup_strips:
  assumes "normalizeTermGroup opts termGroup = Inr out"
  shows "\<exists>kvs. out = JObj kvs \<and> ''_ObjectIdentity_'' \<notin> fst ` set kvs
           \<and> ''_ObjectType_'' \<notin> fst ` set kvs"
proof (cases termGroup)
  case (JObj props)
  let ?kept = "filter (\<lambda>kv. fst kv \<noteq> ''_ObjectType_'')
                 (filter (\<lambda>kv. fst kv \<noteq> ''_ObjectIdentity_'') props)"
  obtain i where "out = JObj (AList.update ''Description''
        (JStr (if truthyOption (add_description opts) then optionText (add_description opts) else []))
        (AList.update ''Id'' (JStr (unwrapGuid i)) ?kept))"
    using assms JObj
    by (auto simp add: normalizeTermGroup_def simp del: filter_filter split: sum.splits)
  moreover have "''_ObjectIdentity_'' \<notin> fst ` set ?kept" "''_ObjectType_'' \<notin> fst ` set ?kept"
    by auto
  ultimately show ?thesis by (simp add: keys_update)
qed (use assms in \<open>simp_all add: normalizeTermGroup_def stringProp_def\<close>)

text \<open>
  Claim C3. The group that \<^verbatim>\<open>spo term group add\<close> prints has neither
  \<^verbatim>\<open>_ObjectIdentity_\<close> nor \<^verbatim>\<open>_ObjectType_\<close> (lemma \<open>normalizeTermGroup_strips\<close>). The
  items that \<^verbatim>\<open>spo term set list\<close> prints keep both: lines 120-125 rewrite
  \<^verbatim>\<open>CreatedDate\<close>, \<^verbatim>\<open>Id\<close> and \<^verbatim>\<open>LastModifiedDate\<close> and delete nothing. The run below
  is the command on a server answer with one term set.
\<close>

theorem term_set_list_keeps_identity_keys:
  "logged (snd (termSetList_commandAction (exampleEnv listAnswers) listOptions))
     = [JArr [JObj [(''_ObjectType_'', JStr ''SP.Taxonomy.TermSet''),
                    (''_ObjectIdentity_'', JStr ''8992299e-a003-4000-7686-fda36e26a53c|fec14c62:gr:0e8f395e-ff58-4d45-9ff7-e331ab728beb''),
                    (''CreatedDate'', JStr ''2018-09-13T11:52:53.337Z''),
                    (''Id'', JStr ''7a167c47-2b37-41d0-94d0-e962c1a4f2ed''),
                    (''LastModifiedDate'', JStr ''2018-09-13T12:13:46.883Z''),
                    (''Name'', JStr ''PnP-CollabFooter-SharedLinks'')]]]"
proof -
  let ?env = "exampleEnv listAnswers"
  let ?u = "''https://contoso.sharepoint.com''"
  have d1: "unwrapDate ''/Date(1536839573337)/'' = Inr ''2018-09-13T11:52:53.337Z''"
    by code_simp
  have d2: "unwrapDate ''/Date(1536840826883)/'' = Inr ''2018-09-13T12:13:46.883Z''"
    by code_simp
  have g: "unwrapGuid ''/Guid(7a167c47-2b37-41d0-94d0-e962c1a4f2ed)/''
      = ''7a167c47-2b37-41d0-94d0-e962c1a4f2ed''"
    by (simp add: unwrapGuid_def)
  have n: "normalizeTermSet exampleTermSet
      = Inr (JObj [(''_ObjectType_'', JStr ''SP.Taxonomy.TermSet''),
                    (''_ObjectIdentity_'', JStr ''8992299e-a003-4000-7686-fda36e26a53c|fec14c62:gr:0e8f395e-ff58-4d45-9ff7-e331ab728beb''),
                    (''CreatedDate'', JStr ''2018-09-13T11:52:53.337Z''),
                    (''Id'', JStr ''7a167c47-2b37-41d0-94d0-e962c1a4f2ed''),
                    (''LastModifiedDate'', JStr ''2018-09-13T12:13:46.883Z''),
                    (''Name'', JStr ''PnP-CollabFooter-SharedLinks'')])"
    by (simp add: normalizeTermSet_def exampleTermSet_def stringProp_def d1 d2 g)
  have h1: "connect ?env (list_webUrl listOptions) [] = (Inr (?u, ''ABC''), [GetRequestDigest ?u])"
    by (simp add: connect_def resolveWebUrl_def callGetRequestDigest_def andThen_def done_with_def
        exampleEnv_def listOptions_def)
  have h2: "post ?env [] (termSetList_request ?env listOptions ?u ''ABC'') = Inr ''[1]''"
    by (simp add: exampleEnv_def listAnswers_def)
  obtain evs where evs: "logged evs = []"
      "termSetList_commandAction ?env listOptions = termSetList_response ?env ''[1]'' evs"
    using termSetList_run [OF h1 h2] by blast
  have "termSetList_response ?env ''[1]'' evs
      = (Inr (), evs @ [Log (JArr [JObj [(''_ObjectType_'', JStr ''SP.Taxonomy.TermSet''),
                    (''_ObjectIdentity_'', JStr ''8992299e-a003-4000-7686-fda36e26a53c|fec14c62:gr:0e8f395e-ff58-4d45-9ff7-e331ab728beb''),
                    (''CreatedDate'', JStr ''2018-09-13T11:52:53.337Z''),
                    (''Id'', JStr ''7a167c47-2b37-41d0-94d0-e962c1a4f2ed''),
                    (''LastModifiedDate'', JStr ''2018-09-13T12:13:46.883Z''),
                    (''Name'', JStr ''PnP-CollabFooter-SharedLinks'')]])])"
    by (simp add: termSetList_response_def termSetList_output_def andThen_def lift_def emit_def
        parseResponse_def decodeResult_def checkErrorInfo_def element0_def lastElement_def
        exampleEnv_def listAnswers_def noErrorInfo_def n)
  then show ?thesis using evs by (simp add: logged_append)
qed

section \<open>Calendar arithmetic\<close>

lemma div_bounds:
  fixes a k :: int
  assumes "0 < k"
  shows "k * (a div k) \<le> a \<and> a < k * (a div k) + k"
proof -
  have "a = k * (a div k) + a mod k" by simp
  moreover have "0 \<le> a mod k" "a mod k < k" using assms by simp_all
  ultimately show ?thesis by linarith
qed

lemma div_step:
  fixes a k :: int
  assumes "0 < k"
  shows "(a + 1) div k - a div k = (if (a + 1) mod k = 0 then 1 else 0)"
proof (cases "(a + 1) mod k = 0")
  case True
  define q where "q = (a + 1) div k"
  have "a + 1 = k * q" using True unfolding q_def by (metis add.right_neutral mult_div_mod_eq)
  then have "a = k * (q - 1) + (k - 1)" by (simp add: algebra_simps)
  then have "a div k = q - 1" using assms by (intro int_div_pos_eq [where r = "k - 1"]) simp_all
  with True show ?thesis by (simp add: q_def)
next
  case False
  define q where "q = (a + 1) div k"
  define r where "r = (a + 1) mod k"
  have "0 \<le> r" "r < k" using assms unfolding r_def by simp_all
  with False have r: "0 < r" "r < k" unfolding r_def by simp_all
  have "a + 1 = k * q + r" unfolding q_def r_def by simp
  then have "a = k * q + (r - 1)" by simp
  then have "a div k = q" using r by (intro int_div_pos_eq [where r = "r - 1"]) simp_all
  with False show ?thesis by (simp add: q_def)
qed

lemma mod_shift:
  fixes y :: int
  shows "(y - k * c) mod k = y mod k"
proof -
  have "(y + k * (- c)) mod k = y mod k" by (rule mod_mult_self2)
  then show ?thesis by simp
qed

lemma mod_0_trans:
  fixes y a b :: int
  assumes "a dvd b" and "y mod b = 0"
  shows "y mod a = 0"
proof -
  have "b dvd y" using assms(2) by (simp add: dvd_eq_mod_eq_0)
  with assms(1) have "a dvd y" by (rule dvd_trans)
  then show ?thesis by (simp add: dvd_eq_mod_eq_0)
qed

lemma step_at:
  fixes y k c :: int
  assumes "0 < k"
  shows "(y - k * c) div k - (y - k * c - 1) div k = (if y mod k = 0 then 1 else 0)"
proof -
  have "(y - k * c - 1 + 1) div k - (y - k * c - 1) div k
      = (if (y - k * c - 1 + 1) mod k = 0 then 1 else 0)"
    using assms by (rule div_step)
  moreover have "y - k * c - 1 + 1 = y - k * c" by simp
  ultimately have "(y - k * c) div k - (y - k * c - 1) div k
      = (if (y - k * c) mod k = 0 then 1 else 0)"
    by (simp only:)
  then show ?thesis by (simp only: mod_shift)
qed

lemma DayFromYear_step:
  "DayFromYear (y + 1) - DayFromYear y = (if isLeapYear y then 366 else 365)"
proof -
  have s4: "(y - 1968) div 4 - (y - 1969) div 4 = (if y mod 4 = 0 then 1 else 0)"
    using step_at [of 4 y 492] by simp
  have s100: "(y - 1900) div 100 - (y - 1901) div 100 = (if y mod 100 = 0 then 1 else 0)"
    using step_at [of 100 y 19] by simp
  have s400: "(y - 1600) div 400 - (y - 1601) div 400 = (if y mod 400 = 0 then 1 else 0)"
    using step_at [of 400 y 4] by simp
  have d1: "y mod 4 = 0" if "y mod 100 = 0"
    using mod_0_trans [of 4 100 y] that by simp
  have d2: "y mod 100 = 0" if "y mod 400 = 0"
    using mod_0_trans [of 100 400 y] that by simp
  have e: "DayFromYear (y + 1) - DayFromYear y
      = 365 + ((y - 1968) div 4 - (y - 1969) div 4) - ((y - 1900) div 100 - (y - 1901) div 100)
          + ((y - 1600) div 400 - (y - 1601) div 400)"
    by (simp add: DayFromYear_def)
  show ?thesis
  proof (cases "y mod 4 = 0")
    case False
    with d1 d2 have "y mod 100 \<noteq> 0" "y mod 400 \<noteq> 0" by auto
    with False show ?thesis unfolding e s4 s100 s400 by (simp add: isLeapYear_def)
  next
    case True
    show ?thesis
    proof (cases "y mod 100 = 0")
      case False
      with d2 have "y mod 400 \<noteq> 0" by auto
      with True False show ?thesis unfolding e s4 s100 s400 by (simp add: isLeapYear_def)
    next
      case h: True
      with True show ?thesis unfolding e s4 s100 s400 by (simp add: isLeapYear_def)
    qed
  qed
qed


lemma DayFromYear_estimate:
  shows "400 * DayFromYear y \<le> 146097 * (y - 1970) + 1000"
    and "146097 * (y - 1970) - 1000 \<le> 400 * DayFromYear y"
proof -
  define a where "a = (y - 1969) div 4"
  define b where "b = (y - 1901) div 100"
  define c where "c = (y - 1601) div 400"
  have a: "4 * a \<le> y - 1969" "y - 1969 < 4 * a + 4"
    using div_bounds [of 4 "y - 1969"] unfolding a_def by simp_all
  have b: "100 * b \<le> y - 1901" "y - 1901 < 100 * b + 100"
    using div_bounds [of 100 "y - 1901"] unfolding b_def by simp_all
  have c: "400 * c \<le> y - 1601" "y - 1601 < 400 * c + 400"
    using div_bounds [of 400 "y - 1601"] unfolding c_def by simp_all
  have d: "DayFromYear y = 365 * (y - 1970) + a - b + c"
    by (simp add: DayFromYear_def a_def b_def c_def)
  show "400 * DayFromYear y \<le> 146097 * (y - 1970) + 1000"
    unfolding d using a b c by (simp add: algebra_simps)
  show "146097 * (y - 1970) - 1000 \<le> 400 * DayFromYear y"
    unfolding d using a b c by (simp add: algebra_simps)
qed

lemma YearFromTime_near:
  "YearFromTime t = 1970 + (400 * Day t) div 146097 + 1
   \<or> YearFromTime t = 1970 + (400 * Day t) div 146097
   \<or> YearFromTime t = 1970 + (400 * Day t) div 146097 - 1"
  by (simp add: YearFromTime_def Let_def)

lemma YearFromTime_bounds:
  "DayFromYear (YearFromTime t) \<le> Day t \<and> Day t < DayFromYear (YearFromTime t + 1)"
proof -
  define q where "q = (400 * Day t) div 146097"
  define y where "y = 1970 + q"
  have e: "146097 * q \<le> 400 * Day t" "400 * Day t < 146097 * q + 146097"
    using div_bounds [of 146097 "400 * Day t"] unfolding q_def by simp_all
  have lo: "DayFromYear (y - 1) \<le> Day t"
    using DayFromYear_estimate(1) [of "y - 1"] e unfolding y_def by (simp add: algebra_simps)
  have hi: "Day t < DayFromYear (y + 1 + 1)"
    using DayFromYear_estimate(2) [of "y + 1 + 1"] e unfolding y_def by (simp add: algebra_simps)
  have "YearFromTime t =
      (if DayFromYear (y + 1) \<le> Day t then y + 1 else if DayFromYear y \<le> Day t then y else y - 1)"
    by (simp add: YearFromTime_def Let_def y_def q_def)
  then show ?thesis using lo hi by auto
qed

lemma Day_range:
  assumes "\<bar>t\<bar> \<le> maxTime"
  shows "- 100000001 \<le> Day t" and "Day t \<le> 100000000"
proof -
  define q where "q = t div 86400000"
  have "86400000 * q \<le> t" "t < 86400000 * q + 86400000"
    using div_bounds [of 86400000 t] unfolding q_def by simp_all
  then have "- 100000001 \<le> q" "q \<le> 100000000"
    using assms unfolding maxTime_def by linarith+
  then show "- 100000001 \<le> Day t" and "Day t \<le> 100000000"
    unfolding Day_def msPerDay_def q_def by simp_all
qed

lemma YearFromTime_range:
  assumes "\<bar>t\<bar> \<le> maxTime"
  shows "- 300000 \<le> YearFromTime t" and "YearFromTime t \<le> 300000"
proof -
  define q where "q = (400 * Day t) div 146097"
  have e: "146097 * q \<le> 400 * Day t" "400 * Day t < 146097 * q + 146097"
    using div_bounds [of 146097 "400 * Day t"] unfolding q_def by simp_all
  have "- 290000 \<le> q" "q \<le> 290000"
    using e Day_range [OF assms] by linarith+
  then show "- 300000 \<le> YearFromTime t" and "YearFromTime t \<le> 300000"
    using YearFromTime_near [of t] unfolding q_def by auto
qed

lemma DayWithinYear_range:
  "0 \<le> DayWithinYear t \<and> DayWithinYear t < 365 + InLeapYear t"
  using YearFromTime_bounds [of t] DayFromYear_step [of "YearFromTime t"]
  by (simp add: DayWithinYear_def InLeapYear_def split: if_splits)

lemma InLeapYear_range: "InLeapYear t = 0 \<or> InLeapYear t = 1"
  by (simp add: InLeapYear_def)

lemma MonthFromTime_range: "0 \<le> MonthFromTime t \<and> MonthFromTime t \<le> 11"
  by (simp add: MonthFromTime_def Let_def)

lemma DateFromTime_range: "1 \<le> DateFromTime t \<and> DateFromTime t \<le> 31"
  using DayWithinYear_range [of t] InLeapYear_range [of t]
  unfolding DateFromTime_def MonthFromTime_def monthStart_def Let_def
  by (auto split: if_splits)

lemma MakeDay_inverse:
  "MakeDay (YearFromTime t) (MonthFromTime t + 1 - 1) (DateFromTime t) = Day t"
proof -
  have "MonthFromTime t div 12 = 0" "MonthFromTime t mod 12 = MonthFromTime t"
    using MonthFromTime_range [of t] by simp_all
  then show ?thesis
    by (simp add: MakeDay_def Let_def DateFromTime_def DayWithinYear_def InLeapYear_def)
qed

lemma time_fields_range:
  "0 \<le> HourFromTime t \<and> HourFromTime t < 24 \<and> 0 \<le> MinFromTime t \<and> MinFromTime t < 60
   \<and> 0 \<le> SecFromTime t \<and> SecFromTime t < 60 \<and> 0 \<le> msFromTime t \<and> msFromTime t < 1000"
  by (simp add: HourFromTime_def MinFromTime_def SecFromTime_def msFromTime_def)


lemma MakeTime_inverse:
  "MakeDate (Day t) (MakeTime (HourFromTime t) (MinFromTime t) (SecFromTime t) (msFromTime t)) = t"
proof -
  have s: "t mod 60000 = 1000 * (t div 1000 mod 60) + t mod 1000"
    using zmod_zmult2_eq [of 60 t 1000] by simp
  have m: "t mod 3600000 = 60000 * (t div 60000 mod 60) + t mod 60000"
    using zmod_zmult2_eq [of 60 t 60000] by simp
  have h: "t mod 86400000 = 3600000 * (t div 3600000 mod 24) + t mod 3600000"
    using zmod_zmult2_eq [of 24 t 3600000] by simp
  have "t = 86400000 * (t div 86400000) + t mod 86400000" by simp
  then show ?thesis
    unfolding MakeDate_def MakeTime_def Day_def msPerDay_def HourFromTime_def MinFromTime_def
      SecFromTime_def msFromTime_def
    using s m h by linarith
qed


section \<open>Decimal digits\<close>

lemma digitChar_cases:
  "digitChar n \<in> set ''0123456789'' \<and> digitValue (digitChar n) = n mod 10"
proof -
  define r where "r = n mod 10"
  have "0 \<le> r" "r < 10" unfolding r_def by simp_all
  then have "r = 0 \<or> r = 1 \<or> r = 2 \<or> r = 3 \<or> r = 4 \<or> r = 5 \<or> r = 6 \<or> r = 7 \<or> r = 8 \<or> r = 9"
    by presburger
  then show ?thesis
    unfolding digitChar_def digitValue_def r_def [symmetric]
    by (elim disjE) (simp_all add: char_of_def)
qed

lemma intOfDigits_snoc: "intOfDigits (ds @ [c]) = 10 * intOfDigits ds + digitValue c"
  by (simp add: intOfDigits_def)

lemma length_padDigits: "length (padDigits k n) = k"
  by (induction k arbitrary: n) simp_all

lemma digits_padDigits: "list_all isDigit (padDigits k n)"
  using digitChar_cases by (induction k arbitrary: n) (simp_all add: isDigit_def)

lemma intOfDigits_padDigits: "intOfDigits (padDigits k n) = n mod 10 ^ k"
proof (induction k arbitrary: n)
  case 0
  show ?case by (simp add: intOfDigits_def)
next
  case (Suc k)
  have "n mod (10 * 10 ^ k) = 10 * (n div 10 mod 10 ^ k) + n mod 10"
    by (rule zmod_zmult2_eq) simp
  then show ?case
    using Suc [of "n div 10"] digitChar_cases [of n] by (simp add: intOfDigits_snoc)
qed

lemma digitsValue_padDigits:
  assumes "0 < k" and "0 \<le> n" and "n < 10 ^ k"
  shows "digitsValue (padDigits k n) = Some n"
proof -
  have "padDigits k n \<noteq> []" using assms(1) length_padDigits [of k n] by auto
  then show ?thesis
    using assms(2,3) by (simp add: digitsValue_def isDecimal_def digits_padDigits intOfDigits_padDigits)
qed

lemma padDigits_hd_digit:
  assumes "0 < k"
  shows "\<exists>c cs. padDigits k n = c # cs \<and> c \<noteq> CHR ''+'' \<and> c \<noteq> CHR ''-''"
proof -
  obtain c cs where e: "padDigits k n = c # cs"
    using assms length_padDigits [of k n] by (cases "padDigits k n") auto
  have "isDigit c" using digits_padDigits [of k n] e by simp
  then have "c \<noteq> CHR ''+'' \<and> c \<noteq> CHR ''-''" by (auto simp add: isDigit_def)
  with e show ?thesis by blast
qed

section \<open>Reading back what \<^verbatim>\<open>toISOString\<close> writes\<close>

lemma isoYearAndRest_plain:
  assumes "s = c # cs" and "c \<noteq> CHR ''+''" and "c \<noteq> CHR ''-''"
  shows "isoYearAndRest s = map_option (\<lambda>y. (y, drop 4 s)) (digitsValue (take 4 s))"
  using assms by (simp add: isoYearAndRest_def)

lemma isoYearAndRest_isoYear:
  assumes "- 300000 \<le> y" and "y \<le> 300000"
  shows "isoYearAndRest (isoYear y @ r) = Some (y, r)"
proof -
  consider "0 \<le> y \<and> y \<le> 9999" | "y < 0" | "9999 < y" by linarith
  then show ?thesis
  proof cases
    case 1
    obtain c cs where e: "padDigits 4 y = c # cs" "c \<noteq> CHR ''+''" "c \<noteq> CHR ''-''"
      using padDigits_hd_digit [of 4 y] by auto
    have v: "digitsValue (padDigits 4 y) = Some y"
      using 1 by (intro digitsValue_padDigits) simp_all
    have l: "length (padDigits 4 y) = 4" by (rule length_padDigits)
    have "padDigits 4 y @ r = c # (cs @ r)" using e(1) by simp
    then have "isoYearAndRest (padDigits 4 y @ r)
        = map_option (\<lambda>y'. (y', drop 4 (padDigits 4 y @ r))) (digitsValue (take 4 (padDigits 4 y @ r)))"
      using e(2,3) by (rule isoYearAndRest_plain)
    then have "isoYearAndRest (padDigits 4 y @ r) = Some (y, r)"
      using v l by simp
    then show ?thesis using 1 by (simp add: isoYear_def)
  next
    case 2
    have v: "digitsValue (padDigits 6 \<bar>y\<bar>) = Some \<bar>y\<bar>"
      using assms by (intro digitsValue_padDigits) simp_all
    have l: "length (padDigits 6 \<bar>y\<bar>) = 6" by (rule length_padDigits)
    have "isoYearAndRest (CHR ''-'' # padDigits 6 \<bar>y\<bar> @ r) = Some (y, r)"
      using v l 2 by (simp add: isoYearAndRest_def)
    then show ?thesis using 2 by (simp add: isoYear_def)
  next
    case 3
    have v: "digitsValue (padDigits 6 \<bar>y\<bar>) = Some \<bar>y\<bar>"
      using assms by (intro digitsValue_padDigits) simp_all
    have l: "length (padDigits 6 \<bar>y\<bar>) = 6" by (rule length_padDigits)
    have "isoYearAndRest (CHR ''+'' # padDigits 6 \<bar>y\<bar> @ r) = Some (y, r)"
      using v l 3 by (simp add: isoYearAndRest_def)
    then show ?thesis using 3 by (simp add: isoYear_def)
  qed
qed

lemma two_chars: "length xs = 2 \<Longrightarrow> \<exists>a b. xs = [a, b]"
  by (cases xs; cases "tl xs") auto

lemma three_chars: "length xs = 3 \<Longrightarrow> \<exists>a b c. xs = [a, b, c]"
  by (cases xs; cases "tl xs"; cases "tl (tl xs)") auto

lemma iso_rest_fields:
  assumes "length mo = 2" "length dd = 2" "length hh = 2" "length mi = 2" "length ss = 2"
    and "length ms = 3"
    and "r = ''-'' @ mo @ ''-'' @ dd @ ''T'' @ hh @ '':'' @ mi @ '':'' @ ss @ ''.'' @ ms @ ''Z''"
  shows "length r = 20 \<and> isoSeparators r = ''--T::.Z''
    \<and> isoFields r = [digitsValue mo, digitsValue dd, digitsValue hh, digitsValue mi,
                      digitsValue ss, digitsValue ms]"
proof -
  obtain a1 a2 where mo: "mo = [a1, a2]" using two_chars [OF assms(1)] by blast
  obtain b1 b2 where dd: "dd = [b1, b2]" using two_chars [OF assms(2)] by blast
  obtain c1 c2 where hh: "hh = [c1, c2]" using two_chars [OF assms(3)] by blast
  obtain d1 d2 where mi: "mi = [d1, d2]" using two_chars [OF assms(4)] by blast
  obtain e1 e2 where ss: "ss = [e1, e2]" using two_chars [OF assms(5)] by blast
  obtain f1 f2 f3 where ms: "ms = [f1, f2, f3]" using three_chars [OF assms(6)] by blast
  show ?thesis
    unfolding assms(7) mo dd hh mi ss ms
    by (simp add: isoSeparators_def isoFields_def)
qed

lemma parseISO_isoString:
  assumes "\<bar>t\<bar> \<le> maxTime"
  shows "parseISO (isoString t) = Some t"
proof -
  let ?mo = "padDigits 2 (MonthFromTime t + 1)"
  let ?dd = "padDigits 2 (DateFromTime t)"
  let ?hh = "padDigits 2 (HourFromTime t)"
  let ?mi = "padDigits 2 (MinFromTime t)"
  let ?ss = "padDigits 2 (SecFromTime t)"
  let ?ms = "padDigits 3 (msFromTime t)"
  define r where "r = ''-'' @ ?mo @ ''-'' @ ?dd @ ''T'' @ ?hh @ '':'' @ ?mi @ '':'' @ ?ss @ ''.'' @ ?ms @ ''Z''"
  have s: "isoString t = isoYear (YearFromTime t) @ r"
    by (simp add: isoString_def r_def)
  have y: "isoYearAndRest (isoYear (YearFromTime t) @ r) = Some (YearFromTime t, r)"
    using YearFromTime_range [OF assms] by (rule isoYearAndRest_isoYear)
  have f: "length r = 20" "isoSeparators r = ''--T::.Z''"
    "isoFields r = [digitsValue ?mo, digitsValue ?dd, digitsValue ?hh, digitsValue ?mi,
                    digitsValue ?ss, digitsValue ?ms]"
    using iso_rest_fields [OF _ _ _ _ _ _ r_def] by (simp_all add: length_padDigits)
  have v: "digitsValue ?mo = Some (MonthFromTime t + 1)" "digitsValue ?dd = Some (DateFromTime t)"
    "digitsValue ?hh = Some (HourFromTime t)" "digitsValue ?mi = Some (MinFromTime t)"
    "digitsValue ?ss = Some (SecFromTime t)" "digitsValue ?ms = Some (msFromTime t)"
    using MonthFromTime_range [of t] DateFromTime_range [of t] time_fields_range [of t]
    by (simp_all add: digitsValue_padDigits)
  have "parseISO (isoString t)
      = Some (MakeDate (MakeDay (YearFromTime t) (MonthFromTime t + 1 - 1) (DateFromTime t))
                (MakeTime (HourFromTime t) (MinFromTime t) (SecFromTime t) (msFromTime t)))"
    unfolding parseISO_def s y using f v by simp
  then show ?thesis by (simp only: MakeDay_inverse MakeTime_inverse)
qed


section \<open>Unwrapping a date\<close>

lemma isDecimal_no_paren:
  assumes "isDecimal ds"
  shows "CHR '')'' \<notin> set ds"
proof
  assume "CHR '')'' \<in> set ds"
  moreover have "\<forall>c \<in> set ds. isDigit c"
    using assms by (simp add: isDecimal_def list_all_iff)
  ultimately have "isDigit CHR '')''" by blast
  then show False by (simp add: isDigit_def)
qed

lemma isDecimalInteger_no_paren:
  assumes "isDecimalInteger s"
  shows "CHR '')'' \<notin> set s"
proof (cases s)
  case Nil
  then show ?thesis by simp
next
  case (Cons c ds)
  then have "(c = CHR ''-'' \<or> c = CHR ''+'') \<and> isDecimal ds \<or> isDecimal s"
    using assms by (simp add: isDecimalInteger_def)
  then show ?thesis
  proof
    assume "(c = CHR ''-'' \<or> c = CHR ''+'') \<and> isDecimal ds"
    then show ?thesis using isDecimal_no_paren [of ds] Cons by auto
  next
    assume "isDecimal s"
    then show ?thesis by (rule isDecimal_no_paren)
  qed
qed

lemma unwrapDate_wrapped:
  assumes "CHR '')'' \<notin> set s"
  shows "unwrapDate (''/Date('' @ s @ '')/'')
      = (case Number s of Inl e \<Rightarrow> Inl e | Inr n \<Rightarrow> toISOString (TimeClip n))"
proof -
  have "replace ''/Date('' [] (''/Date('' @ s @ '')/'') = s @ '')/''"
    by (rule replace_prefix [where rep = "[]", simplified]) simp
  moreover have "replace '')/'' [] (s @ '')/'') = s"
    using replace_first_at_end [OF assms, of "''/''" "[]"] by simp
  ultimately show ?thesis by (simp add: unwrapDate_def)
qed


text \<open>
  Claim C4, as the code has it. For a wrapped date \<^verbatim>\<open>/Date(s)/\<close> with \<open>s\<close> a decimal
  integer of value \<open>ms\<close>: when \<open>ms\<close> is within 8.64e15 milliseconds of the epoch (the
  range of a \<^verbatim>\<open>Date\<close>), the unwrapping yields the ISO text of \<open>ms\<close>, and reading
  that text back recovers \<open>ms\<close>; beyond that range \<^verbatim>\<open>toISOString\<close> throws a
  \<^verbatim>\<open>RangeError\<close> and nothing is unwrapped.
\<close>

theorem date_round_trip:
  assumes "isDecimalInteger s" and "Number s = Inr ms"
  shows "(\<bar>ms\<bar> \<le> maxTime
           \<longrightarrow> unwrapDate (''/Date('' @ s @ '')/'') = Inr (isoString ms)
               \<and> parseISO (isoString ms) = Some ms)
    \<and> (maxTime < \<bar>ms\<bar> \<longrightarrow> unwrapDate (''/Date('' @ s @ '')/'') = Inl RangeError)"
proof -
  have u: "unwrapDate (''/Date('' @ s @ '')/'') = toISOString (TimeClip ms)"
    using unwrapDate_wrapped [OF isDecimalInteger_no_paren [OF assms(1)]] assms(2) by simp
  have a: "unwrapDate (''/Date('' @ s @ '')/'') = Inr (isoString ms) \<and> parseISO (isoString ms) = Some ms"
    if "\<bar>ms\<bar> \<le> maxTime"
    using that parseISO_isoString [OF that] unfolding u by (simp add: TimeClip_def toISOString_def)
  have b: "unwrapDate (''/Date('' @ s @ '')/'') = Inl RangeError" if "maxTime < \<bar>ms\<bar>"
    using that unfolding u by (simp add: TimeClip_def toISOString_def)
  show ?thesis using a b by blast
qed


lemmas number_defs = Number_def isDecimalInteger_def isDecimal_def isDigit_def intOfDigits_def
  digitValue_def

theorem date_round_trip_witness:
  "unwrapDate ''/Date(1536839573337)/'' = Inr ''2018-09-13T11:52:53.337Z''
   \<and> parseISO ''2018-09-13T11:52:53.337Z'' = Some 1536839573337"
proof -
  have h1: "isDecimalInteger ''1536839573337''" by (simp add: number_defs)
  have h2: "Number ''1536839573337'' = Inr 1536839573337" by (simp add: number_defs)
  have h3: "\<bar>1536839573337\<bar> \<le> maxTime" by (simp add: maxTime_def)
  have h4: "isoString 1536839573337 = ''2018-09-13T11:52:53.337Z''" by code_simp
  show ?thesis
    using date_round_trip [OF h1 h2] h3 h4 by simp
qed

theorem date_round_trip_counterexample:
  "isDecimalInteger ''8640000000000001''
   \<and> unwrapDate ''/Date(8640000000000001)/'' = Inl RangeError"
proof -
  have "Number ''8640000000000001'' = Inr 8640000000000001" by (simp add: number_defs)
  then have "unwrapDate ''/Date(8640000000000001)/'' = Inl RangeError"
    by (simp add: unwrapDate_def TimeClip_def maxTime_def toISOString_def)
  moreover have "isDecimalInteger ''8640000000000001''" by (simp add: number_defs)
  ultimately show ?thesis by simp
qed


section \<open>Request bodies\<close>

lemma sublist_inside: "sublist xs ys \<Longrightarrow> sublist xs (ps @ ys @ ss)"
  by (metis append.assoc sublist_def)

lemma guid_in_termSetList_data:
  assumes "list_termGroupId opts = Some g" and "g \<noteq> []"
  shows "sublist (guidParameter g) (termSetList_data env opts)"
proof -
  have "termSetList_query env opts = getById_open @ guidParameter g @ parameters_close"
    using assms by (simp add: termSetList_query_def)
  then have "termSetList_data env opts
      = (requestHeader env @ termSetList_head @ getById_open) @ guidParameter g
          @ (parameters_close @ termSetList_tail)"
    by (simp add: termSetList_data_def)
  then show ?thesis by (simp only: sublist_appendI)
qed

lemma name_in_termSetList_data:
  assumes "\<not> truthyOption (list_termGroupId opts)"
  shows "sublist (stringParameter (escapeXml env (list_termGroupName opts))) (termSetList_data env opts)"
proof -
  have "termSetList_data env opts
      = (requestHeader env @ termSetList_head @ getByName_open)
          @ stringParameter (escapeXml env (list_termGroupName opts))
          @ (parameters_close @ termSetList_tail)"
    using assms by (simp add: termSetList_data_def termSetList_query_def)
  then show ?thesis by (simp only: sublist_appendI)
qed

lemma name_in_createGroup_data:
  "sublist (stringParameter (escapeXml env (Some (add_name opts)))) (createGroup_data env opts i)"
proof -
  have "createGroup_data env opts i
      = (requestHeader env @ createGroup_head)
          @ stringParameter (escapeXml env (Some (add_name opts)))
          @ (guidParameter (termGroupId env opts) @ createGroup_middle @ i @ identity_close)"
    by (simp add: createGroup_data_def)
  then show ?thesis by (simp only: sublist_appendI)
qed

lemma guid_in_createGroup_data:
  "sublist (guidParameter (termGroupId env opts)) (createGroup_data env opts i)"
proof -
  have "createGroup_data env opts i
      = (requestHeader env @ createGroup_head @ stringParameter (escapeXml env (Some (add_name opts))))
          @ guidParameter (termGroupId env opts)
          @ (createGroup_middle @ i @ identity_close)"
    by (simp add: createGroup_data_def)
  then show ?thesis by (simp only: sublist_appendI)
qed

lemma description_in_setDescription_data:
  "sublist (stringParameter (escapeXml env (add_description opts))) (setDescription_data env opts i)"
proof -
  have "setDescription_data env opts i
      = (requestHeader env @ setDescription_head)
          @ stringParameter (escapeXml env (add_description opts))
          @ (setDescription_middle @ i @ identity_close)"
    by (simp add: setDescription_data_def)
  then show ?thesis by (simp only: sublist_appendI)
qed


text \<open>
  Claim C6. With a \<^verbatim>\<open>termGroupId\<close> \<open>g\<close> that is not empty (as every GUID is), the body
  of the request of \<^verbatim>\<open>spo term set list\<close> holds
  \<^verbatim>\<open><Parameter Type="Guid">{g}</Parameter>\<close>; so does every request the command
  posts, and it posts that one request whenever it has a site and a digest. The
  \<^verbatim>\<open>CreateGroup\<close> body of \<^verbatim>\<open>spo term group add\<close> wraps its \<^verbatim>\<open>id\<close> the same way.
\<close>

theorem guid_parameter_is_embedded:
  assumes "list_termGroupId opts = Some g" and "g \<noteq> []"
  shows \<open>sublist (''<Parameter Type="Guid">{'' @ g @ ''}</Parameter>'') (termSetList_data env opts)
    \<and> (\<forall>r \<in> set (posts (snd (termSetList_commandAction env opts))).
          sublist (''<Parameter Type="Guid">{'' @ g @ ''}</Parameter>'') (data r))
    \<and> (connect env (list_webUrl opts) [] = (Inr (u, d), evs0)
       \<longrightarrow> posts (snd (termSetList_commandAction env opts)) = [termSetList_request env opts u d])
    \<and> (add_id aopts = Some g
       \<longrightarrow> sublist (''<Parameter Type="Guid">{'' @ g @ ''}</Parameter>'') (createGroup_data env aopts i))\<close>
proof -
  have a: "sublist (guidParameter g) (termSetList_data env opts)"
    using guid_in_termSetList_data [OF assms] .
  have b: "sublist (guidParameter g) (data r)"
    if "r \<in> set (posts (snd (termSetList_commandAction env opts)))" for r
    using a termSetList_posts [OF that] by simp
  have c: "sublist (guidParameter g) (createGroup_data env aopts i)" if "add_id aopts = Some g"
    using guid_in_createGroup_data [of env aopts i] that assms(2) by (simp add: termGroupId_def)
  show ?thesis
    using a b c termSetList_sends [of env opts u d evs0] by (simp add: guidParameter_def)
qed

theorem guid_parameter_is_embedded_witness:
  \<open>sublist ''<Parameter Type="Guid">{11111111-1111-1111-1111-111111111111}</Parameter>''
      (termSetList_data (exampleEnv []) listOptions)
   \<and> posts (snd (termSetList_commandAction (exampleEnv []) listOptions))
       = [termSetList_request (exampleEnv []) listOptions ''https://contoso.sharepoint.com'' ''ABC'']
   \<and> data (termSetList_request (exampleEnv []) listOptions ''https://contoso.sharepoint.com'' ''ABC'')
       = termSetList_data (exampleEnv []) listOptions\<close>
proof -
  have h1: "list_termGroupId listOptions = Some ''11111111-1111-1111-1111-111111111111''"
    by (simp add: listOptions_def)
  have h2: "''11111111-1111-1111-1111-111111111111'' \<noteq> []" by simp
  have h3: "connect (exampleEnv []) (list_webUrl listOptions) []
      = (Inr (''https://contoso.sharepoint.com'', ''ABC''), [GetRequestDigest ''https://contoso.sharepoint.com''])"
    by (simp add: connect_def resolveWebUrl_def callGetRequestDigest_def andThen_def done_with_def
        exampleEnv_def listOptions_def)
  show ?thesis
    using guid_parameter_is_embedded [OF h1 h2, of "exampleEnv []" "''https://contoso.sharepoint.com''" "''ABC''"
        "[GetRequestDigest ''https://contoso.sharepoint.com'']"] h3
    by (simp add: termSetList_request_def)
qed

lemma escapeXmlText_Cons: "escapeXmlText (c # s) = escapeXmlChar c @ escapeXmlText s"
  by (simp add: escapeXmlText_def)

lemma escapeXmlText_safe:
  \<open>CHR ''<'' \<notin> set (escapeXmlText s) \<and> CHR ''>'' \<notin> set (escapeXmlText s)
     \<and> CHR ''"'' \<notin> set (escapeXmlText s)\<close>
  by (induction s) (simp_all add: escapeXmlText_def escapeXmlChar_def)

lemma escapeXmlText_plain:
  \<open>set s \<inter> {CHR ''&'', CHR ''<'', CHR ''>'', CHR ''"''} = {} \<Longrightarrow> escapeXmlText s = s\<close>
  by (induction s) (auto simp add: escapeXmlText_def escapeXmlChar_def)

lemma unescapeXml_escapeXmlText: "unescapeXml (escapeXmlText s) = s"
proof (induction s)
  case Nil
  show ?case by (simp add: escapeXmlText_def)
next
  case (Cons c s)
  then show ?case by (simp add: escapeXmlText_Cons escapeXmlChar_def)
qed

text \<open>
  Claim C8. With \<^verbatim>\<open>formatting.escapeXml\<close> the escaper of section 4.1, every
  string-typed parameter is embedded in its XML-escaped form: \<^verbatim>\<open>termGroupName\<close> (when
  the group is not given by id), \<^verbatim>\<open>name\<close> and \<^verbatim>\<open>description\<close>, in the bodies that are
  all the commands post. The escaped form of a text has no angle bracket and no
  double quote, every ampersand, angle bracket and double quote of the text is
  replaced by its entity (a text without them is left as it is), and the text can be
  read back from it.
\<close>

theorem string_parameters_are_escaped:
  assumes "escapeXml env = formatting_escapeXml"
  shows \<open>(list_termGroupName lopts = Some s \<and> \<not> truthyOption (list_termGroupId lopts)
      \<longrightarrow> sublist (''<Parameter Type="String">'' @ escapeXmlText s @ ''</Parameter>'')
            (termSetList_data env lopts))
    \<and> sublist (''<Parameter Type="String">'' @ escapeXmlText (add_name aopts) @ ''</Parameter>'')
         (createGroup_data env aopts i)
    \<and> (add_description aopts = Some d
      \<longrightarrow> sublist (''<Parameter Type="String">'' @ escapeXmlText d @ ''</Parameter>'')
            (setDescription_data env aopts i))
    \<and> (\<forall>r \<in> set (posts (snd (termSetList_commandAction env lopts))).
          data r = termSetList_data env lopts)
    \<and> (\<forall>r \<in> set (posts (snd (termGroupAdd_commandAction env aopts))).
          data r = termStore_data env \<or> (\<exists>j. data r = createGroup_data env aopts j)
          \<or> (\<exists>j. data r = setDescription_data env aopts j))
    \<and> escapeXmlText (t @ ''&'' @ t') = escapeXmlText t @ ''&amp;'' @ escapeXmlText t'
    \<and> escapeXmlText (t @ ''<'' @ t') = escapeXmlText t @ ''&lt;'' @ escapeXmlText t'
    \<and> escapeXmlText (t @ ''>'' @ t') = escapeXmlText t @ ''&gt;'' @ escapeXmlText t'
    \<and> escapeXmlText (t @ ''"'' @ t') = escapeXmlText t @ ''&quot;'' @ escapeXmlText t'
    \<and> CHR ''<'' \<notin> set (escapeXmlText t) \<and> CHR ''>'' \<notin> set (escapeXmlText t)
    \<and> CHR ''"'' \<notin> set (escapeXmlText t)
    \<and> (set t \<inter> {CHR ''&'', CHR ''<'', CHR ''>'', CHR ''"''} = {} \<longrightarrow> escapeXmlText t = t)
    \<and> unescapeXml (escapeXmlText t) = t\<close>
proof -
  have bodies: \<open>(list_termGroupName lopts = Some s \<and> \<not> truthyOption (list_termGroupId lopts)
      \<longrightarrow> sublist (''<Parameter Type="String">'' @ escapeXmlText s @ ''</Parameter>'')
            (termSetList_data env lopts))
    \<and> sublist (''<Parameter Type="String">'' @ escapeXmlText (add_name aopts) @ ''</Parameter>'')
         (createGroup_data env aopts i)
    \<and> (add_description aopts = Some d
      \<longrightarrow> sublist (''<Parameter Type="String">'' @ escapeXmlText d @ ''</Parameter>'')
            (setDescription_data env aopts i))\<close>
    using name_in_termSetList_data [of lopts env] name_in_createGroup_data [of env aopts i]
      description_in_setDescription_data [of env aopts i] assms
    by (auto simp add: stringParameter_def formatting_escapeXml_def)
  have sent: \<open>(\<forall>r \<in> set (posts (snd (termSetList_commandAction env lopts))).
          data r = termSetList_data env lopts)
    \<and> (\<forall>r \<in> set (posts (snd (termGroupAdd_commandAction env aopts))).
          data r = termStore_data env \<or> (\<exists>j. data r = createGroup_data env aopts j)
          \<or> (\<exists>j. data r = setDescription_data env aopts j))\<close>
    using termSetList_posts [of _ env lopts] termGroupAdd_posts [of _ env aopts] by simp
  have entities: \<open>escapeXmlText (t @ ''&'' @ t') = escapeXmlText t @ ''&amp;'' @ escapeXmlText t'
    \<and> escapeXmlText (t @ ''<'' @ t') = escapeXmlText t @ ''&lt;'' @ escapeXmlText t'
    \<and> escapeXmlText (t @ ''>'' @ t') = escapeXmlText t @ ''&gt;'' @ escapeXmlText t'
    \<and> escapeXmlText (t @ ''"'' @ t') = escapeXmlText t @ ''&quot;'' @ escapeXmlText t'\<close>
    by (simp add: escapeXmlText_def escapeXmlChar_def)
  show ?thesis
    using bodies sent entities escapeXmlText_safe [of t] escapeXmlText_plain [of t]
      unescapeXml_escapeXmlText [of t]
    by blast
qed

theorem string_parameters_are_escaped_witness:
  \<open>escapeXml (exampleEnv addAnswers) = formatting_escapeXml
   \<and> sublist ''<Parameter Type="String">R&amp;D</Parameter>''
      (createGroup_data (exampleEnv addAnswers) addOptions ''id'')
   \<and> sublist ''<Parameter Type="String">Sets of &lt;R&amp;D&gt; &quot;terms&quot;</Parameter>''
      (setDescription_data (exampleEnv addAnswers) addOptions ''id'')
   \<and> sublist ''<Parameter Type="String">Legal &amp; Compliance</Parameter>''
      (termSetList_data (exampleEnv addAnswers)
         \<lparr>list_verbose = False, list_webUrl = None, list_termGroupId = None,
          list_termGroupName = Some ''Legal & Compliance''\<rparr>)
   \<and> escapeXmlText ''plain text'' = ''plain text''
   \<and> unescapeXml ''Sets of &lt;R&amp;D&gt; &quot;terms&quot;'' = ''Sets of <R&D> "terms"''\<close>
proof -
  have h: "escapeXml (exampleEnv addAnswers) = formatting_escapeXml"
    by (simp add: exampleEnv_def)
  have e: \<open>escapeXmlText ''Sets of <R&D> "terms"'' = ''Sets of &lt;R&amp;D&gt; &quot;terms&quot;''\<close>
    \<open>escapeXmlText ''R&D'' = ''R&amp;D''\<close>
    \<open>escapeXmlText ''Legal & Compliance'' = ''Legal &amp; Compliance''\<close>
    by (simp_all add: escapeXmlText_def escapeXmlChar_def)
  show ?thesis
    using string_parameters_are_escaped
      [OF h, of "\<lparr>list_verbose = False, list_webUrl = None, list_termGroupId = None,
            list_termGroupName = Some ''Legal & Compliance''\<rparr>" "''Legal & Compliance''"
          addOptions "''id''" \<open>''Sets of <R&D> "terms"''\<close> "''plain text''"]
      string_parameters_are_escaped
      [OF h, of "\<lparr>list_verbose = False, list_webUrl = None, list_termGroupId = None,
            list_termGroupName = Some ''Legal & Compliance''\<rparr>" "''Legal & Compliance''"
          addOptions "''id''" \<open>''Sets of <R&D> "terms"''\<close> \<open>''Sets of <R&D> "terms"''\<close>]
      h e
    by (simp add: addOptions_def)
qed

section \<open>The three batches of \<^verbatim>\<open>spo term group add\<close>\<close>

text \<open>
  Claim C9, as the code has it. After the first two batches of
  \<^verbatim>\<open>spo term group add\<close> have succeeded and the new group's identity can be read,
  the third batch is sent exactly when \<^verbatim>\<open>description\<close> is given and not empty. When it
  is sent and fails (the transport rejects, or the answer does not parse or carries
  an \<^verbatim>\<open>ErrorInfo\<close>), the command ends with that error: the three requests are all it
  has posted, and nothing is logged.
\<close>

theorem description_batch:
  assumes "connect env (add_webUrl opts) [] = (Inr (u, d), evs0)"
    and "getTermStore env opts u d evs0 = (Inr termStore, evs1)"
    and "createGroup env opts u d termStore evs1 = (Inr termGroup, evs2)"
    and "setDescription_request env opts u d termGroup = Inr req3"
  shows "(\<exists>req2. createGroup_request env opts u d termStore = Inr req2
            \<and> posts evs2 = [termStore_request env u d, req2])
    \<and> posts (snd (termGroupAdd_commandAction env opts))
        = (if truthyOption (add_description opts) then posts evs2 @ [req3] else posts evs2)
    \<and> (truthyOption (add_description opts)
        \<and> (post env (posts evs2) req3 = Inl e
            \<or> (\<exists>raw3. post env (posts evs2) req3 = Inr raw3
                  \<and> checkTermGroups env (Some raw3) = Inl e))
       \<longrightarrow> fst (termGroupAdd_commandAction env opts) = Inl e
           \<and> logged (snd (termGroupAdd_commandAction env opts)) = [])"
proof -
  have q0: "posts evs0 = []" "logged evs0 = []"
    using connect_quiet [OF assms(1)] by simp_all
  have q1: "posts evs1 = [termStore_request env u d]" "logged evs1 = []"
    using getTermStore_posts [OF assms(2)] q0 by simp_all
  have q2: "\<exists>req2. createGroup_request env opts u d termStore = Inr req2
              \<and> posts evs2 = [termStore_request env u d, req2]" "logged evs2 = []"
    using createGroup_posts [OF assms(3)] q1 by (auto split: sum.splits)
  have run: "termGroupAdd_commandAction env opts =
      (case setDescription env opts u d termGroup evs2 of
         (Inl e, evs3) \<Rightarrow> (Inl e, evs3)
       | (Inr termGroups, evs3) \<Rightarrow> printTermGroup env opts termGroup termGroups evs3)"
    using assms(1-3) by (simp add: termGroupAdd_eq)
  have sent: "posts (snd (termGroupAdd_commandAction env opts))
        = (if truthyOption (add_description opts) then posts evs2 @ [req3] else posts evs2)"
    using assms(4)
    by (auto simp add: run setDescription_eq printTermGroup_eq posts_append split: sum.splits)
  have failed: "fst (termGroupAdd_commandAction env opts) = Inl e
           \<and> logged (snd (termGroupAdd_commandAction env opts)) = []"
    if "truthyOption (add_description opts)"
      and "post env (posts evs2) req3 = Inl e
            \<or> (\<exists>raw3. post env (posts evs2) req3 = Inr raw3
                  \<and> checkTermGroups env (Some raw3) = Inl e)"
    using that assms(4) q2(2)
    by (auto simp add: run setDescription_eq printTermGroup_eq logged_append split: sum.splits)
  show ?thesis using q2(1) sent failed by blast
qed


theorem description_batch_witness:
  "truthyOption (add_description addOptions)
   \<and> fst (termGroupAdd_commandAction
            (exampleEnv (take 2 addAnswers @ [(''[3]'', JArr [withErrorInfo])])) addOptions)
       = Inl (ServerError (JStr ''An error has occurred''))
   \<and> length (posts (snd (termGroupAdd_commandAction
            (exampleEnv (take 2 addAnswers @ [(''[3]'', JArr [withErrorInfo])])) addOptions))) = 3
   \<and> logged (snd (termGroupAdd_commandAction
            (exampleEnv (take 2 addAnswers @ [(''[3]'', JArr [withErrorInfo])])) addOptions)) = []"
proof -
  let ?env = "exampleEnv (take 2 addAnswers @ [(''[3]'', JArr [withErrorInfo])])"
  let ?u = "''https://contoso-admin.sharepoint.com''"
  let ?evs0 = "[GetSpoAdminUrl, GetRequestDigest ?u]"
  let ?req1 = "termStore_request ?env ?u ''ABC''"
  let ?req2 = "\<lparr>url = processQueryUrl ?u, digest = ''ABC'',
                data = createGroup_data ?env addOptions
                  ''8992299e-a003-4000-7686-fda36e26a53c|fec14c62:st:YU1+cBy9wUuh/fzgFZGpUQ==''\<rparr>"
  let ?req3 = "\<lparr>url = processQueryUrl ?u, digest = ''ABC'',
                data = setDescription_data ?env addOptions
                  ''8992299e-a003-4000-7686-fda36e26a53c|fec14c62:gr:YU1+cBy9wUuh/fzgFZGpUV45jw5Y/0VNn/fjMatyi+s=''\<rparr>"
  have h1: "connect ?env (add_webUrl addOptions) [] = (Inr (?u, ''ABC''), ?evs0)"
    by (rule addExample_connect)
  have h2: "getTermStore ?env addOptions ?u ''ABC'' ?evs0 = (Inr exampleTermStore, ?evs0 @ [Post ?req1])"
    by (simp add: getTermStore_eq parseResponse_def decodeResult_def checkErrorInfo_def element0_def
        lastElement_def exampleEnv_def addAnswers_def noErrorInfo_def addOptions_def)
  have h3: "createGroup ?env addOptions ?u ''ABC'' exampleTermStore (?evs0 @ [Post ?req1])
      = (Inr exampleTermGroup, (?evs0 @ [Post ?req1]) @ [Post ?req2])"
    by (simp add: createGroup_eq createGroup_request_def objectIdentity_def parseResponse_def
        decodeResult_def checkErrorInfo_def element0_def lastElement_def exampleEnv_def
        addAnswers_def noErrorInfo_def addOptions_def exampleTermStore_def)
  have h4: "setDescription_request ?env addOptions ?u ''ABC'' exampleTermGroup = Inr ?req3"
    by (simp add: setDescription_request_def objectIdentity_def exampleTermGroup_def)
  have h5: "truthyOption (add_description addOptions)"
    by (simp add: addOptions_def)
  have h6: "post ?env (posts ((?evs0 @ [Post ?req1]) @ [Post ?req2])) ?req3 = Inr ''[3]''"
    by (simp add: exampleEnv_def addAnswers_def)
  have h7: "checkTermGroups ?env (Some ''[3]'') = Inl (ServerError (JStr ''An error has occurred''))"
    by (simp add: checkTermGroups_def parseResponse_def checkErrorInfo_def element0_def
        exampleEnv_def addAnswers_def withErrorInfo_def)
  show ?thesis
    using description_batch [OF h1 h2 h3 h4, of "ServerError (JStr ''An error has occurred'')"]
      h5 h6 h7
    by simp
qed

theorem description_batch_counterexample:
  "add_description (addOptions\<lparr>add_description := Some []\<rparr>) = Some []
   \<and> fst (termGroupAdd_commandAction (exampleEnv addAnswers)
            (addOptions\<lparr>add_description := Some []\<rparr>)) = Inr ()
   \<and> length (posts (snd (termGroupAdd_commandAction (exampleEnv addAnswers)
            (addOptions\<lparr>add_description := Some []\<rparr>)))) = 2"
proof -
  let ?env = "exampleEnv addAnswers"
  let ?opts = "addOptions\<lparr>add_description := Some []\<rparr>"
  let ?u = "''https://contoso-admin.sharepoint.com''"
  let ?evs0 = "[GetSpoAdminUrl, GetRequestDigest ?u]"
  let ?req1 = "termStore_request ?env ?u ''ABC''"
  let ?req2 = "\<lparr>url = processQueryUrl ?u, digest = ''ABC'',
                data = createGroup_data ?env ?opts
                  ''8992299e-a003-4000-7686-fda36e26a53c|fec14c62:st:YU1+cBy9wUuh/fzgFZGpUQ==''\<rparr>"
  have h1: "connect ?env (add_webUrl ?opts) [] = (Inr (?u, ''ABC''), ?evs0)"
    by (simp add: step_defs exampleEnv_def addOptions_def)
  have h2: "getTermStore ?env ?opts ?u ''ABC'' ?evs0 = (Inr exampleTermStore, ?evs0 @ [Post ?req1])"
    by (simp add: getTermStore_eq parseResponse_def decodeResult_def checkErrorInfo_def element0_def
        lastElement_def exampleEnv_def addAnswers_def noErrorInfo_def addOptions_def)
  have h3: "createGroup ?env ?opts ?u ''ABC'' exampleTermStore (?evs0 @ [Post ?req1])
      = (Inr exampleTermGroup, (?evs0 @ [Post ?req1]) @ [Post ?req2])"
    by (simp add: createGroup_eq createGroup_request_def objectIdentity_def parseResponse_def
        decodeResult_def checkErrorInfo_def element0_def lastElement_def exampleEnv_def
        addAnswers_def noErrorInfo_def addOptions_def exampleTermStore_def)
  have h4: "setDescription ?env ?opts ?u ''ABC'' exampleTermGroup ((?evs0 @ [Post ?req1]) @ [Post ?req2])
      = (Inr None, (?evs0 @ [Post ?req1]) @ [Post ?req2])"
    by (simp add: setDescription_eq addOptions_def)
  have h5: "\<exists>out. printTermGroup ?env ?opts exampleTermGroup None ((?evs0 @ [Post ?req1]) @ [Post ?req2])
      = (Inr (), ((?evs0 @ [Post ?req1]) @ [Post ?req2]) @ [Log out])"
    by (simp add: printTermGroup_eq checkTermGroups_def normalizeTermGroup_def stringProp_def
        exampleTermGroup_def)
  show ?thesis
    using h1 h2 h3 h4 h5 by (auto simp add: termGroupAdd_eq addOptions_def)
qed


section \<open>Validation\<close>

lemma termSetList_optionSets_ok:
  "(validateOptionSets termSetList_optionSets (termSetList_given opts) = VBool True)
     = ((list_termGroupId opts = None) \<noteq> (list_termGroupName opts = None))"
  by (auto simp add: validateOptionSets_def termSetList_optionSets_def termSetList_given_def)

lemma termGroupAdd_optionSets_ok:
  "validateOptionSets termGroupAdd_optionSets given = VBool True"
  by (simp add: validateOptionSets_def termGroupAdd_optionSets_def)

lemma action_events:
  "snd (action validation commandAction opts)
     = (if validation opts \<noteq> VBool True then [] else snd (commandAction opts))"
  by (simp add: action_def split: prod.splits sum.splits)

text \<open>
  Claim C7, as the code has it. Validation that does not return \<^verbatim>\<open>true\<close> ends the
  invocation before any request (the order of \<open>action\<close>), and it returns \<^verbatim>\<open>true\<close>
  exactly when the registered option set is met (\<^verbatim>\<open>spo term set list\<close>: one of
  \<^verbatim>\<open>termGroupId\<close> and \<^verbatim>\<open>termGroupName\<close> is given, and not both) and every \<^verbatim>\<open>webUrl\<close>
  and GUID option that is given and not the empty text passes its helper. Once the
  option set is met, the result is the validator's: the verdict of
  \<^verbatim>\<open>isValidSharePointUrl\<close> on a \<^verbatim>\<open>webUrl\<close> it rejects (in \<^verbatim>\<open>spo term group add\<close> only
  once \<^verbatim>\<open>id\<close> has passed), and the message \<^verbatim>\<open><value> is not a valid GUID\<close> for an
  invalid GUID that is not the empty text (in \<^verbatim>\<open>spo term set list\<close> only once
  \<^verbatim>\<open>webUrl\<close> has passed). An option that is the empty text is not looked at by the
  validators.
\<close>

theorem validation_verdicts:
  "((validate termSetList_optionSets termSetList_given (termSetList_validate v) lopts = VBool True)
      = (((list_termGroupId lopts = None) \<noteq> (list_termGroupName lopts = None))
         \<and> (\<not> truthyOption (list_webUrl lopts)
             \<or> isValidSharePointUrl v (optionText (list_webUrl lopts)) = VBool True)
         \<and> (\<not> truthyOption (list_termGroupId lopts)
             \<or> isValidGuid v (optionText (list_termGroupId lopts)))))
   \<and> ((validate termGroupAdd_optionSets termGroupAdd_given (termGroupAdd_validate v) aopts = VBool True)
      = ((\<not> truthyOption (add_id aopts) \<or> isValidGuid v (optionText (add_id aopts)))
         \<and> (\<not> truthyOption (add_webUrl aopts)
             \<or> isValidSharePointUrl v (optionText (add_webUrl aopts)) = VBool True)))
   \<and> (validate termSetList_optionSets termSetList_given (termSetList_validate v) lopts \<noteq> VBool True
      \<longrightarrow> action (validate termSetList_optionSets termSetList_given (termSetList_validate v))
              (termSetList_commandAction env) lopts
            = (ValidationError
                 (validate termSetList_optionSets termSetList_given (termSetList_validate v) lopts), []))
   \<and> (validate termGroupAdd_optionSets termGroupAdd_given (termGroupAdd_validate v) aopts \<noteq> VBool True
      \<longrightarrow> action (validate termGroupAdd_optionSets termGroupAdd_given (termGroupAdd_validate v))
              (termGroupAdd_commandAction env) aopts
            = (ValidationError
                 (validate termGroupAdd_optionSets termGroupAdd_given (termGroupAdd_validate v) aopts), []))
   \<and> ((list_termGroupId lopts = None) \<noteq> (list_termGroupName lopts = None)
        \<and> list_webUrl lopts = Some u \<and> u \<noteq> [] \<and> isValidSharePointUrl v u \<noteq> VBool True
      \<longrightarrow> validate termSetList_optionSets termSetList_given (termSetList_validate v) lopts
            = isValidSharePointUrl v u)
   \<and> (list_termGroupId lopts = Some g \<and> list_termGroupName lopts = None
        \<and> g \<noteq> [] \<and> \<not> isValidGuid v g
        \<and> (\<not> truthyOption (list_webUrl lopts)
            \<or> isValidSharePointUrl v (optionText (list_webUrl lopts)) = VBool True)
      \<longrightarrow> validate termSetList_optionSets termSetList_given (termSetList_validate v) lopts
            = VText (g @ '' is not a valid GUID''))
   \<and> ((list_termGroupId lopts = None) = (list_termGroupName lopts = None)
      \<longrightarrow> validate termSetList_optionSets termSetList_given (termSetList_validate v) lopts
            = VOptionSet [''termGroupId'', ''termGroupName''])
   \<and> (add_id aopts = Some g \<and> g \<noteq> [] \<and> \<not> isValidGuid v g
      \<longrightarrow> validate termGroupAdd_optionSets termGroupAdd_given (termGroupAdd_validate v) aopts
            = VText (g @ '' is not a valid GUID''))
   \<and> (add_webUrl aopts = Some u \<and> u \<noteq> []
        \<and> (\<not> truthyOption (add_id aopts) \<or> isValidGuid v (optionText (add_id aopts)))
      \<longrightarrow> validate termGroupAdd_optionSets termGroupAdd_given (termGroupAdd_validate v) aopts
            = isValidSharePointUrl v u)"
proof -
  let ?VL = "validate termSetList_optionSets termSetList_given (termSetList_validate v)"
  let ?VA = "validate termGroupAdd_optionSets termGroupAdd_given (termGroupAdd_validate v)"
  let ?one = "(list_termGroupId lopts = None) \<noteq> (list_termGroupName lopts = None)"
  have sets: "\<not> ?one
      \<Longrightarrow> validateOptionSets termSetList_optionSets (termSetList_given lopts)
            = VOptionSet [''termGroupId'', ''termGroupName'']"
    by (auto simp add: validateOptionSets_def termSetList_optionSets_def termSetList_given_def)
  have list: "?VL lopts
      = (if ?one then termSetList_validate v lopts
         else VOptionSet [''termGroupId'', ''termGroupName''])"
    using termSetList_optionSets_ok [of lopts] sets by (auto simp add: validate_def)
  have add: "?VA aopts = termGroupAdd_validate v aopts"
    by (simp add: validate_def termGroupAdd_optionSets_ok)
  have c1: "(?VL lopts = VBool True)
      = (?one
         \<and> (\<not> truthyOption (list_webUrl lopts)
             \<or> isValidSharePointUrl v (optionText (list_webUrl lopts)) = VBool True)
         \<and> (\<not> truthyOption (list_termGroupId lopts)
             \<or> isValidGuid v (optionText (list_termGroupId lopts))))"
    unfolding list by (auto simp add: termSetList_validate_def)
  have c2: "(?VA aopts = VBool True)
      = ((\<not> truthyOption (add_id aopts) \<or> isValidGuid v (optionText (add_id aopts)))
         \<and> (\<not> truthyOption (add_webUrl aopts)
             \<or> isValidSharePointUrl v (optionText (add_webUrl aopts)) = VBool True))"
    unfolding add by (auto simp add: termGroupAdd_validate_def)
  have c3: "?VL lopts \<noteq> VBool True
      \<longrightarrow> action ?VL (termSetList_commandAction env) lopts = (ValidationError (?VL lopts), [])"
    by (simp add: action_def)
  have c4: "?VA aopts \<noteq> VBool True
      \<longrightarrow> action ?VA (termGroupAdd_commandAction env) aopts = (ValidationError (?VA aopts), [])"
    by (simp add: action_def)
  have c5: "?one \<and> list_webUrl lopts = Some u \<and> u \<noteq> [] \<and> isValidSharePointUrl v u \<noteq> VBool True
      \<longrightarrow> ?VL lopts = isValidSharePointUrl v u"
    unfolding list by (cases u) (simp_all add: termSetList_validate_def)
  have c6: "list_termGroupId lopts = Some g \<and> list_termGroupName lopts = None
        \<and> g \<noteq> [] \<and> \<not> isValidGuid v g
        \<and> (\<not> truthyOption (list_webUrl lopts)
            \<or> isValidSharePointUrl v (optionText (list_webUrl lopts)) = VBool True)
      \<longrightarrow> ?VL lopts = VText (g @ '' is not a valid GUID'')"
    unfolding list by (cases g) (auto simp add: termSetList_validate_def)
  have c7: "(list_termGroupId lopts = None) = (list_termGroupName lopts = None)
      \<longrightarrow> ?VL lopts = VOptionSet [''termGroupId'', ''termGroupName'']"
    unfolding list by simp
  have c8: "add_id aopts = Some g \<and> g \<noteq> [] \<and> \<not> isValidGuid v g
      \<longrightarrow> ?VA aopts = VText (g @ '' is not a valid GUID'')"
    unfolding add by (cases g) (simp_all add: termGroupAdd_validate_def)
  have c9: "add_webUrl aopts = Some u \<and> u \<noteq> []
        \<and> (\<not> truthyOption (add_id aopts) \<or> isValidGuid v (optionText (add_id aopts)))
      \<longrightarrow> ?VA aopts = isValidSharePointUrl v u"
    unfolding add by (cases u) (auto simp add: termGroupAdd_validate_def)
  show ?thesis
    using c1 c2 c3 c4 c5 c6 c7 c8 c9 by (intro conjI)
qed

theorem validation_verdicts_witness:
  "validate termSetList_optionSets termSetList_given (termSetList_validate exampleValidation)
       (listOptions\<lparr>list_webUrl := Some ''foo''\<rparr>)
     = VText ''foo is not a valid SharePoint Online site URL''
   \<and> action (validate termSetList_optionSets termSetList_given (termSetList_validate exampleValidation))
        (termSetList_commandAction (exampleEnv listAnswers)) (listOptions\<lparr>list_webUrl := Some ''foo''\<rparr>)
     = (ValidationError (VText ''foo is not a valid SharePoint Online site URL''), [])
   \<and> validate termSetList_optionSets termSetList_given (termSetList_validate exampleValidation)
       (listOptions\<lparr>list_termGroupId := Some ''invalid''\<rparr>)
     = VText ''invalid is not a valid GUID''
   \<and> validate termSetList_optionSets termSetList_given (termSetList_validate exampleValidation)
       (listOptions\<lparr>list_termGroupId := None\<rparr>)
     = VOptionSet [''termGroupId'', ''termGroupName'']
   \<and> validate termSetList_optionSets termSetList_given (termSetList_validate exampleValidation)
       listOptions = VBool True
   \<and> validate termGroupAdd_optionSets termGroupAdd_given (termGroupAdd_validate exampleValidation)
       (addOptions\<lparr>add_id := Some ''invalid''\<rparr>)
     = VText ''invalid is not a valid GUID''
   \<and> validate termGroupAdd_optionSets termGroupAdd_given (termGroupAdd_validate exampleValidation)
       (addOptions\<lparr>add_webUrl := Some ''https://contoso.sharepoint.com''\<rparr>) = VBool True"
proof -
  have g: "\<not> isGuidText ''invalid''" "isGuidText ''11111111-1111-1111-1111-111111111111''"
    "isGuidText ''0e8f395e-ff58-4d45-9ff7-e331ab728beb''"
    by (simp_all add: isGuidText_def isHexDigit_def)
  show ?thesis
    using validation_verdicts [of exampleValidation "listOptions\<lparr>list_webUrl := Some ''foo''\<rparr>"
        "addOptions\<lparr>add_id := Some ''invalid''\<rparr>" "exampleEnv listAnswers" "''foo''" "''invalid''"]
      validation_verdicts [of exampleValidation "listOptions\<lparr>list_termGroupId := Some ''invalid''\<rparr>"
        "addOptions\<lparr>add_webUrl := Some ''https://contoso.sharepoint.com''\<rparr>"
        "exampleEnv listAnswers" "''https://contoso.sharepoint.com''" "''invalid''"]
      validation_verdicts [of exampleValidation "listOptions\<lparr>list_termGroupId := None\<rparr>"
        addOptions "exampleEnv listAnswers" "''foo''" "''invalid''"]
      validation_verdicts [of exampleValidation listOptions
        addOptions "exampleEnv listAnswers" "''foo''" "''invalid''"]
      g
    by (simp add: exampleValidation_def listOptions_def addOptions_def)
qed

theorem validation_verdicts_counterexample:
  "\<not> isValidGuid exampleValidation []
   \<and> validate termGroupAdd_optionSets termGroupAdd_given (termGroupAdd_validate exampleValidation)
       (addOptions\<lparr>add_id := Some []\<rparr>) = VBool True
   \<and> length (posts (snd (action
        (validate termGroupAdd_optionSets termGroupAdd_given (termGroupAdd_validate exampleValidation))
        (termGroupAdd_commandAction (exampleEnv addAnswers)) (addOptions\<lparr>add_id := Some []\<rparr>)))) = 3
   \<and> \<not> isValidGuid exampleValidation ''invalid''
   \<and> validate termSetList_optionSets termSetList_given (termSetList_validate exampleValidation)
        (listOptions\<lparr>list_webUrl := Some ''foo'', list_termGroupId := Some ''invalid''\<rparr>)
      = VText ''foo is not a valid SharePoint Online site URL''"
proof -
  let ?env = "exampleEnv addAnswers"
  let ?opts = "addOptions\<lparr>add_id := Some []\<rparr>"
  let ?u = "''https://contoso-admin.sharepoint.com''"
  let ?evs0 = "[GetSpoAdminUrl, GetRequestDigest ?u]"
  let ?req1 = "termStore_request ?env ?u ''ABC''"
  let ?req2 = "\<lparr>url = processQueryUrl ?u, digest = ''ABC'',
                data = createGroup_data ?env ?opts
                  ''8992299e-a003-4000-7686-fda36e26a53c|fec14c62:st:YU1+cBy9wUuh/fzgFZGpUQ==''\<rparr>"
  let ?req3 = "\<lparr>url = processQueryUrl ?u, digest = ''ABC'',
                data = setDescription_data ?env ?opts
                  ''8992299e-a003-4000-7686-fda36e26a53c|fec14c62:gr:YU1+cBy9wUuh/fzgFZGpUV45jw5Y/0VNn/fjMatyi+s=''\<rparr>"
  have v: "validate termGroupAdd_optionSets termGroupAdd_given (termGroupAdd_validate exampleValidation)
       ?opts = VBool True"
    by (simp add: validate_def termGroupAdd_optionSets_ok termGroupAdd_validate_def addOptions_def)
  have h1: "connect ?env (add_webUrl ?opts) [] = (Inr (?u, ''ABC''), ?evs0)"
    by (simp add: step_defs exampleEnv_def addOptions_def)
  have h2: "getTermStore ?env ?opts ?u ''ABC'' ?evs0 = (Inr exampleTermStore, ?evs0 @ [Post ?req1])"
    by (simp add: getTermStore_eq parseResponse_def decodeResult_def checkErrorInfo_def element0_def
        lastElement_def exampleEnv_def addAnswers_def noErrorInfo_def addOptions_def)
  have h3: "createGroup ?env ?opts ?u ''ABC'' exampleTermStore (?evs0 @ [Post ?req1])
      = (Inr exampleTermGroup, (?evs0 @ [Post ?req1]) @ [Post ?req2])"
    by (simp add: createGroup_eq createGroup_request_def objectIdentity_def parseResponse_def
        decodeResult_def checkErrorInfo_def element0_def lastElement_def exampleEnv_def
        addAnswers_def noErrorInfo_def addOptions_def exampleTermStore_def)
  have h4: "setDescription ?env ?opts ?u ''ABC'' exampleTermGroup ((?evs0 @ [Post ?req1]) @ [Post ?req2])
      = (Inr (Some ''[3]''), ((?evs0 @ [Post ?req1]) @ [Post ?req2]) @ [Post ?req3])"
    by (simp add: setDescription_eq setDescription_request_def objectIdentity_def
        exampleTermGroup_def exampleEnv_def addAnswers_def addOptions_def)
  have h5: "\<exists>out. printTermGroup ?env ?opts exampleTermGroup (Some ''[3]'')
        (((?evs0 @ [Post ?req1]) @ [Post ?req2]) @ [Post ?req3])
      = (Inr (), (((?evs0 @ [Post ?req1]) @ [Post ?req2]) @ [Post ?req3]) @ [Log out])"
    by (simp add: printTermGroup_eq checkTermGroups_def parseResponse_def checkErrorInfo_def
        element0_def normalizeTermGroup_def stringProp_def exampleTermGroup_def exampleEnv_def
        addAnswers_def noErrorInfo_def)
  have run: "length (posts (snd (termGroupAdd_commandAction ?env ?opts))) = 3"
    using h1 h2 h3 h4 h5 by (auto simp add: termGroupAdd_eq addOptions_def)
  have "length (posts (snd (action
        (validate termGroupAdd_optionSets termGroupAdd_given (termGroupAdd_validate exampleValidation))
        (termGroupAdd_commandAction ?env) ?opts))) = 3"
    using v run by (simp add: action_events)
  moreover have "\<not> isValidGuid exampleValidation []" "\<not> isValidGuid exampleValidation ''invalid''"
    by (simp_all add: exampleValidation_def isGuidText_def isHexDigit_def)
  moreover have "validate termSetList_optionSets termSetList_given (termSetList_validate exampleValidation)
        (listOptions\<lparr>list_webUrl := Some ''foo'', list_termGroupId := Some ''invalid''\<rparr>)
      = VText ''foo is not a valid SharePoint Online site URL''"
    by (simp add: validate_def validateOptionSets_def termSetList_optionSets_def
        termSetList_given_def termSetList_validate_def exampleValidation_def listOptions_def)
  ultimately show ?thesis using v by simp
qed

end
